theory Spec2Isabelle
  imports Main
begin

section \<open>JavaScript values, failures and promises\<close>

text \<open>
  The tool handlers exchange untyped JSON values with the controlled application.
  The type \<open>'n\<close> of JavaScript numbers is left open, and so are the operators on
  it, which belong to the runtime: nothing is assumed of the arithmetic of the engine.
  \<open>JUndefined\<close> is the JavaScript value \<open>undefined\<close> (an optional argument that
  was not given). An object is the list of its properties in insertion order; a lookup
  takes the first entry of a key.

  The repository holds three revisions of the server. Names of the oldest one, which posts
  each command over HTTP with \<open>requestToFrame0\<close>, end in \<open>0\<close>; the two variants
  of index.ts call \<open>executeCommand\<close>, and names of the second variant end in \<open>2\<close>.
\<close>

datatype 'n json =
    JUndefined
  | JNull
  | JBool bool
  | JNum 'n
  | JStr string
  | JArr "'n json list"
  | JObj "(string \<times> 'n json) list"

text \<open>The values that the code throws, or that a rejected promise carries.\<close>

datatype js_error =
    Error string
  | TypeError string
  | FetchError string
  | SyntaxError string

text \<open>
  The state of the promise an \<open>async\<close> function returns, seen once everything that
  will ever happen has happened: it stays pending for ever, it is rejected with a thrown
  value, or it is fulfilled. A function of the model returns one outcome, so a promise is
  settled at most once by construction; \<open>Pending\<close> is the promise that is never settled.
\<close>

datatype 'a outcome = Pending | Throws js_error | Returns 'a

definition settled :: "'a outcome \<Rightarrow> bool" where
  "settled r = (r \<noteq> Pending)"

text \<open>\<open>Error.prototype.toString\<close>, as a template literal applies it to a caught error.\<close>

fun error_name :: "js_error \<Rightarrow> string" where
  "error_name (Error m) = ''Error''"
| "error_name (TypeError m) = ''TypeError''"
| "error_name (FetchError m) = ''FetchError''"
| "error_name (SyntaxError m) = ''SyntaxError''"

fun error_message :: "js_error \<Rightarrow> string" where
  "error_message (Error m) = m"
| "error_message (TypeError m) = m"
| "error_message (FetchError m) = m"
| "error_message (SyntaxError m) = m"

definition error_toString :: "js_error \<Rightarrow> string" where
  "error_toString e =
     (if error_message e = [] then error_name e
      else error_name e @ '': '' @ error_message e)"

text \<open>Whether a text occurs inside another one.\<close>

fun occurs_in :: "string \<Rightarrow> string \<Rightarrow> bool" where
  "occurs_in part [] = (part = [])"
| "occurs_in part (c # rest) =
     (take (length part) (c # rest) = part \<or> occurs_in part rest)"

section \<open>The first revision of the server: requests over HTTP\<close>

text \<open>
  \<open>requestToFrame0\<close> posts the parameters to \<open>URL + slug\<close> with \<open>fetch\<close>. The
  network and the controlled application are the environment: \<open>fetch\<close> gives the
  outcome of the latest request, given every request sent so far (oldest first). A
  response carries its \<open>ok\<close> flag and the outcome of reading and decoding its body
  (\<open>res.json()\<close>).
\<close>

record http_request =
  url :: string
  http_method :: string
  headers :: "(string \<times> string) list"
  body :: string

record 'n response =
  ok :: bool
  res_json :: "'n json outcome"

text \<open>
  The built-ins of the JavaScript runtime that the code relies on: the serializer
  \<open>JSON.stringify\<close>, the conversion of a value to a string inside a template literal,
  the message the engine gives a \<open>TypeError\<close> raised on a value, the number that a
  whole-number literal of the source denotes, and the operators \<open>-\<close> and \<open>+\<close> on
  two numbers.
\<close>

record 'n runtime =
  JSON_stringify :: "'n json \<Rightarrow> string"
  to_string :: "'n json \<Rightarrow> string"
  TypeError_message :: "'n json \<Rightarrow> string"
  num_lit :: "int \<Rightarrow> 'n"
  num_sub :: "'n \<Rightarrow> 'n \<Rightarrow> 'n"
  num_add :: "'n \<Rightarrow> 'n \<Rightarrow> 'n"

record 'n net = "'n runtime" +
  fetch :: "http_request list \<Rightarrow> 'n response outcome"

definition URL :: string where
  "URL = ''http://localhost:3000''"

text \<open>The request that one call builds; \<open>params\<close> defaults to the empty object.\<close>

definition request_of :: "'n net \<Rightarrow> string \<Rightarrow> 'n json \<Rightarrow> http_request" where
  "request_of env slug params =
     \<lparr> url = URL @ slug,
       http_method = ''POST'',
       headers = [(''Content-Type'', ''application/json'')],
       body = JSON_stringify env (if params = JUndefined then JObj [] else params) \<rparr>"

text \<open>
  The state threaded through a call is the list of requests handed to \<open>fetch\<close> so far.
\<close>

definition requestToFrame0 ::
  "'n net \<Rightarrow> string \<Rightarrow> 'n json \<Rightarrow> http_request list \<Rightarrow> 'n json outcome \<times> http_request list" where
  "requestToFrame0 env slug params sent =
     (let sent' = sent @ [request_of env slug params] in
      case fetch env sent' of
        Pending \<Rightarrow> (Pending, sent')
      | Throws e \<Rightarrow> (Throws e, sent')
      | Returns res \<Rightarrow>
          if \<not> ok res then (Throws (Error ''Failed to create rectangle''), sent')
          else (case res_json res of
                  Pending \<Rightarrow> (Pending, sent')
                | Throws e \<Rightarrow> (Throws e, sent')
                | Returns data \<Rightarrow> (Returns data, sent')))"

text \<open>
  Sequencing of asynchronous steps over a threaded state: \<open>await\<close> continues with the
  value of a fulfilled step and stops at a rejected or a pending one; \<open>try_catch\<close> hands
  a thrown value to its handler.
\<close>

definition await ::
  "('s \<Rightarrow> 'a outcome \<times> 's) \<Rightarrow> ('a \<Rightarrow> 's \<Rightarrow> 'b outcome \<times> 's) \<Rightarrow> 's \<Rightarrow> 'b outcome \<times> 's" where
  "await m f s =
     (case m s of
        (Pending, s') \<Rightarrow> (Pending, s')
      | (Throws e, s') \<Rightarrow> (Throws e, s')
      | (Returns v, s') \<Rightarrow> f v s')"

definition try_catch ::
  "('s \<Rightarrow> 'a outcome \<times> 's) \<Rightarrow> (js_error \<Rightarrow> 's \<Rightarrow> 'a outcome \<times> 's) \<Rightarrow> 's \<Rightarrow> 'a outcome \<times> 's" where
  "try_catch m h s =
     (case m s of
        (Pending, s') \<Rightarrow> (Pending, s')
      | (Throws e, s') \<Rightarrow> h e s'
      | (Returns v, s') \<Rightarrow> (Returns v, s'))"

definition return :: "'a \<Rightarrow> 's \<Rightarrow> 'a outcome \<times> 's" where
  "return v s = (Returns v, s)"

text \<open>Optional arguments as JavaScript values.\<close>

fun optS :: "string option \<Rightarrow> 'n json" where
  "optS None = JUndefined"
| "optS (Some s) = JStr s"

fun optN :: "'n option \<Rightarrow> 'n json" where
  "optN None = JUndefined"
| "optN (Some n) = JNum n"

fun optNs :: "'n list option \<Rightarrow> 'n json" where
  "optNs None = JUndefined"
| "optNs (Some ns) = JArr (map JNum ns)"

text \<open>The result object that the handlers of this revision build inline.\<close>

record content_item =
  item_type :: string
  item_text :: string

record tool_result =
  content :: "content_item list"

definition text_content :: "string \<Rightarrow> tool_result" where
  "text_content t = \<lparr> content = [\<lparr> item_type = ''text'', item_text = t \<rparr>] \<rparr>"

text \<open>The frame names of the shape library, an enumeration of the argument schema.\<close>

datatype library_frame = Phone | Tablet | Desktop | Browser | Watch | TV | Custom_Frame

fun library_frame_name :: "library_frame \<Rightarrow> string" where
  "library_frame_name Phone = ''Phone''"
| "library_frame_name Tablet = ''Tablet''"
| "library_frame_name Desktop = ''Desktop''"
| "library_frame_name Browser = ''Browser''"
| "library_frame_name Watch = ''Watch''"
| "library_frame_name TV = ''TV''"
| "library_frame_name Custom_Frame = ''Custom Frame''"

text \<open>
  The four handlers of this revision. None has a \<open>try\<close>: a failure of
  \<open>requestToFrame0\<close> leaves the handler as a thrown value. Each reports the payload as
  \<open>JSON.stringify\<close> gives it.
\<close>

definition create_frame0 ::
  "'n net \<Rightarrow> library_frame \<Rightarrow> 'n \<Rightarrow> 'n \<Rightarrow> 'n \<Rightarrow> 'n \<Rightarrow> http_request list
     \<Rightarrow> tool_result outcome \<times> http_request list" where
  "create_frame0 env name left topY width height =
     await (requestToFrame0 env ''/create_shape_from_library''
              (JObj [(''query'', JStr (library_frame_name name @ ''&@Frame'')),
                     (''left'', JNum left),
                     (''top'', JNum topY),
                     (''width'', JNum width),
                     (''height'', JNum height)]))
       (\<lambda>data. return (text_content (JSON_stringify env data)))"

definition create_text0 ::
  "'n net \<Rightarrow> string option \<Rightarrow> string option \<Rightarrow> 'n \<Rightarrow> 'n \<Rightarrow> string \<Rightarrow> string option
     \<Rightarrow> http_request list \<Rightarrow> tool_result outcome \<times> http_request list" where
  "create_text0 env name parentId left topY txt fontColor =
     await (requestToFrame0 env ''/create_shape''
              (JObj [(''type'', JStr ''Text''),
                     (''parentId'', optS parentId),
                     (''name'', optS name),
                     (''left'', JNum left),
                     (''top'', JNum topY),
                     (''text'', JStr txt),
                     (''fontColor'', optS fontColor)]))
       (\<lambda>data. return (text_content (JSON_stringify env data)))"

definition create_rectangle0 ::
  "'n net \<Rightarrow> string option \<Rightarrow> string option \<Rightarrow> 'n \<Rightarrow> 'n \<Rightarrow> 'n \<Rightarrow> 'n
     \<Rightarrow> string option \<Rightarrow> string option \<Rightarrow> string option \<Rightarrow> 'n option
     \<Rightarrow> string option \<Rightarrow> string option \<Rightarrow> string option \<Rightarrow> 'n list option
     \<Rightarrow> http_request list \<Rightarrow> tool_result outcome \<times> http_request list" where
  "create_rectangle0 env name parentId left topY width height fillColor strokeColor
       fontColor fontSize txt horzAlign vertAlign corners =
     await (requestToFrame0 env ''/create_shape''
              (JObj [(''type'', JStr ''Rectangle''),
                     (''name'', optS name),
                     (''parentId'', optS parentId),
                     (''left'', JNum left),
                     (''top'', JNum topY),
                     (''width'', JNum width),
                     (''height'', JNum height),
                     (''fillColor'', optS fillColor),
                     (''strokeColor'', optS strokeColor),
                     (''fontColor'', optS fontColor),
                     (''fontSize'', optN fontSize),
                     (''text'', optS txt),
                     (''horzAlign'', optS horzAlign),
                     (''vertAlign'', optS vertAlign),
                     (''corners'', optNs corners)]))
       (\<lambda>data. return (text_content (JSON_stringify env data)))"

text \<open>\<open>others\<close> holds the remaining validated arguments, in the order they were given.\<close>

definition update_shape0 ::
  "'n net \<Rightarrow> string \<Rightarrow> (string \<times> 'n json) list \<Rightarrow> http_request list
     \<Rightarrow> tool_result outcome \<times> http_request list" where
  "update_shape0 env ident others =
     await (requestToFrame0 env ''/update_shape'' (JObj ((''id'', JStr ident) # others)))
       (\<lambda>data. return (text_content (JSON_stringify env data)))"

datatype 'n tool_call0 =
    Create_frame0 library_frame 'n 'n 'n 'n
  | Create_text0 "string option" "string option" 'n 'n string "string option"
  | Create_rectangle0 "string option" "string option" 'n 'n 'n 'n
      "string option" "string option" "string option" "'n option"
      "string option" "string option" "string option" "'n list option"
  | Update_shape0 string "(string \<times> 'n json) list"

fun call_tool0 ::
  "'n net \<Rightarrow> 'n tool_call0 \<Rightarrow> http_request list \<Rightarrow> tool_result outcome \<times> http_request list" where
  "call_tool0 env (Create_frame0 name left topY width height) =
     create_frame0 env name left topY width height"
| "call_tool0 env (Create_text0 name parentId left topY txt fontColor) =
     create_text0 env name parentId left topY txt fontColor"
| "call_tool0 env (Create_rectangle0 name parentId left topY width height fillColor
       strokeColor fontColor fontSize txt horzAlign vertAlign corners) =
     create_rectangle0 env name parentId left topY width height fillColor strokeColor
       fontColor fontSize txt horzAlign vertAlign corners"
| "call_tool0 env (Update_shape0 ident others) = update_shape0 env ident others"

section \<open>The tool layer of index.ts, first variant\<close>

text \<open>
  The handlers import \<open>executeCommand\<close>, \<open>filterShape\<close>, \<open>filterPage\<close> and
  \<open>textResult\<close> from \<open>./utils.js\<close> and \<open>convertColor\<close> from \<open>./colors.js\<close>.
  These modules are not among the sources at hand, so the helpers are parameters of the
  model: the data-shaping helpers are arbitrary total functions, and \<open>bridge\<close> gives
  the outcome of the latest command, given every command sent so far (oldest first), which
  covers any behaviour of the command bridge and of the controlled application.
\<close>

record ('n, 'r) tools = "'n runtime" +
  bridge :: "(string \<times> 'n json) list \<Rightarrow> 'n json outcome"
  filterShape :: "'n json \<Rightarrow> 'n json"
  filterPage :: "'n json \<Rightarrow> 'n json"
  textResult :: "string \<Rightarrow> 'r"
  convertColor :: "string option \<Rightarrow> 'n json"

text \<open>
  The state threaded through a handler: the commands handed to \<open>executeCommand\<close> and
  the errors written with \<open>console.error\<close>.
\<close>

record 'n world =
  commands :: "(string \<times> 'n json) list"
  stderr :: "js_error list"

definition executeCommand ::
  "('n, 'r) tools \<Rightarrow> string \<Rightarrow> 'n json \<Rightarrow> 'n world \<Rightarrow> 'n json outcome \<times> 'n world" where
  "executeCommand env command args w =
     (let sent = commands w @ [(command, args)]
      in (bridge env sent, w\<lparr>commands := sent\<rparr>))"

text \<open>
  Every handler ends with the same \<open>catch\<close> block, up to the label of its message:
  it logs the error and returns the text result label + error.
\<close>

definition catch_report :: "('n, 'r) tools \<Rightarrow> string \<Rightarrow> js_error \<Rightarrow> 'n world \<Rightarrow> 'r outcome \<times> 'n world" where
  "catch_report env label error w =
     (Returns (textResult env (label @ error_toString error)),
      w\<lparr>stderr := stderr w @ [error]\<rparr>)"

text \<open>
  Object spread \<open>{...v, k: x}\<close>: the own enumerable properties of \<open>v\<close>, then the
  assignment of \<open>k\<close>, which keeps the position of a key that is already there.
\<close>

definition digit_char :: "nat \<Rightarrow> char" where
  "digit_char n = ''0123456789'' ! (n mod 10)"

fun decimal :: "nat \<Rightarrow> string" where
  "decimal n = (if n < 10 then [digit_char n] else decimal (n div 10) @ [digit_char (n mod 10)])"

fun own_props :: "'n json \<Rightarrow> (string \<times> 'n json) list" where
  "own_props (JObj fs) = fs"
| "own_props (JArr xs) = zip (map decimal [0..<length xs]) xs"
| "own_props (JStr cs) = zip (map decimal [0..<length cs]) (map (\<lambda>c. JStr [c]) cs)"
| "own_props v = []"

fun set_prop :: "string \<Rightarrow> 'n json \<Rightarrow> (string \<times> 'n json) list \<Rightarrow> (string \<times> 'n json) list" where
  "set_prop k v [] = [(k, v)]"
| "set_prop k v ((k', v') # fs) =
     (if k' = k then (k, v) # fs else (k', v') # set_prop k v fs)"

definition get_prop :: "(string \<times> 'n json) list \<Rightarrow> string \<Rightarrow> 'n json" where
  "get_prop fs k = (case map_of fs k of None \<Rightarrow> JUndefined | Some v \<Rightarrow> v)"

subsection \<open>Frames\<close>

datatype frame_type = phone | tablet | desktop | browser | watch | tv

fun FRAME_NAME :: "frame_type \<Rightarrow> string" where
  "FRAME_NAME phone = ''Phone''"
| "FRAME_NAME tablet = ''Tablet''"
| "FRAME_NAME desktop = ''Desktop''"
| "FRAME_NAME browser = ''Browser''"
| "FRAME_NAME watch = ''Watch''"
| "FRAME_NAME tv = ''TV''"

text \<open>
  The tables hold whole-number literals; \<open>FRAME_SIZE_LITERALS\<close> gives them as written,
  and \<open>FRAME_SIZE\<close> the numbers they denote at run time.
\<close>

record 'n frame_size =
  frame_width :: 'n
  frame_height :: 'n

fun FRAME_SIZE_LITERALS :: "frame_type \<Rightarrow> int \<times> int" where
  "FRAME_SIZE_LITERALS phone = (320, 690)"
| "FRAME_SIZE_LITERALS tablet = (520, 790)"
| "FRAME_SIZE_LITERALS desktop = (800, 600)"
| "FRAME_SIZE_LITERALS browser = (800, 600)"
| "FRAME_SIZE_LITERALS watch = (198, 242)"
| "FRAME_SIZE_LITERALS tv = (960, 570)"

definition FRAME_SIZE :: "('n, 'z) runtime_scheme \<Rightarrow> frame_type \<Rightarrow> 'n frame_size" where
  "FRAME_SIZE env frameType =
     \<lparr> frame_width = num_lit env (fst (FRAME_SIZE_LITERALS frameType)),
       frame_height = num_lit env (snd (FRAME_SIZE_LITERALS frameType)) \<rparr>"

fun FRAME_HEADER_HEIGHT :: "frame_type \<Rightarrow> int" where
  "FRAME_HEADER_HEIGHT phone = 0"
| "FRAME_HEADER_HEIGHT tablet = 0"
| "FRAME_HEADER_HEIGHT desktop = 32"
| "FRAME_HEADER_HEIGHT browser = 76"
| "FRAME_HEADER_HEIGHT watch = 0"
| "FRAME_HEADER_HEIGHT tv = 0"

definition create_frame ::
  "('n, 'r) tools \<Rightarrow> frame_type \<Rightarrow> string \<Rightarrow> 'n \<Rightarrow> 'n \<Rightarrow> string option \<Rightarrow> 'n world
     \<Rightarrow> 'r outcome \<times> 'n world" where
  "create_frame env frameType name left topY fillColor =
     try_catch
       (let frameHeaderHeight = num_lit env (FRAME_HEADER_HEIGHT frameType);
            frameSize = FRAME_SIZE env frameType;
            frameName = FRAME_NAME frameType
        in await (executeCommand env ''shape:create-shape-from-library-by-query''
                    (JObj [(''query'', JStr (frameName @ ''&@Frame'')),
                           (''shapeProps'',
                              JObj [(''name'', JStr name),
                                    (''left'', JNum left),
                                    (''top'', JNum (num_sub env topY frameHeaderHeight)),
                                    (''width'', JNum (frame_width frameSize)),
                                    (''height'',
                                       JNum (num_add env (frame_height frameSize)
                                               frameHeaderHeight)),
                                    (''fillColor'', convertColor env fillColor)])]))
             (\<lambda>shapeId.
           await (executeCommand env ''view:fit-to-screen'' JUndefined)
             (\<lambda>fitted.
           await (executeCommand env ''shape:get-shape'' (JObj [(''shapeId'', shapeId)]))
             (\<lambda>data.
           return (textResult env (''Created frame: '' @
             JSON_stringify env
               (JObj (set_prop ''height''
                        (JNum (num_add env (frame_height frameSize) frameHeaderHeight))
                       (set_prop ''top'' (JNum (num_sub env topY frameHeaderHeight))
                         (own_props (filterShape env data)))))))))))
       (catch_report env ''Failed to create frame: '')"

subsection \<open>Shapes\<close>

definition create_rectangle ::
  "('n, 'r) tools \<Rightarrow> string \<Rightarrow> string option \<Rightarrow> 'n \<Rightarrow> 'n \<Rightarrow> 'n \<Rightarrow> 'n
     \<Rightarrow> string option \<Rightarrow> string option \<Rightarrow> 'n list option \<Rightarrow> 'n world \<Rightarrow> 'r outcome \<times> 'n world" where
  "create_rectangle env name parentId left topY width height fillColor strokeColor corners =
     try_catch
       (await (executeCommand env ''shape:create-shape''
                 (JObj [(''type'', JStr ''Rectangle''),
                        (''shapeProps'',
                           JObj [(''name'', JStr name),
                                 (''left'', JNum left),
                                 (''top'', JNum topY),
                                 (''width'', JNum width),
                                 (''height'', JNum height),
                                 (''fillColor'', convertColor env fillColor),
                                 (''strokeColor'', convertColor env strokeColor),
                                 (''corners'', optNs corners)]),
                        (''parentId'', optS parentId)]))
          (\<lambda>shapeId.
        await (executeCommand env ''shape:get-shape'' (JObj [(''shapeId'', shapeId)]))
          (\<lambda>data.
        return (textResult env (''Created rectangle: '' @
          JSON_stringify env (filterShape env data))))))
       (catch_report env ''Failed to create rectangle: '')"

definition create_ellipse ::
  "('n, 'r) tools \<Rightarrow> string \<Rightarrow> string option \<Rightarrow> 'n \<Rightarrow> 'n \<Rightarrow> 'n \<Rightarrow> 'n
     \<Rightarrow> string option \<Rightarrow> string option \<Rightarrow> 'n world \<Rightarrow> 'r outcome \<times> 'n world" where
  "create_ellipse env name parentId left topY width height fillColor strokeColor =
     try_catch
       (await (executeCommand env ''shape:create-shape''
                 (JObj [(''type'', JStr ''Ellipse''),
                        (''shapeProps'',
                           JObj [(''name'', JStr name),
                                 (''left'', JNum left),
                                 (''top'', JNum topY),
                                 (''width'', JNum width),
                                 (''height'', JNum height),
                                 (''fillColor'', convertColor env fillColor),
                                 (''strokeColor'', convertColor env strokeColor)]),
                        (''parentId'', optS parentId)]))
          (\<lambda>shapeId.
        await (executeCommand env ''shape:get-shape'' (JObj [(''shapeId'', shapeId)]))
          (\<lambda>data.
        return (textResult env (''Created ellipse: '' @
          JSON_stringify env (filterShape env data))))))
       (catch_report env ''Failed to create ellipse: '')"

datatype text_type = Label | Paragraph | Heading | Link | Normal

fun text_type_name :: "text_type \<Rightarrow> string" where
  "text_type_name Label = ''label''"
| "text_type_name Paragraph = ''paragraph''"
| "text_type_name Heading = ''heading''"
| "text_type_name Link = ''link''"
| "text_type_name Normal = ''normal''"

definition create_text ::
  "('n, 'r) tools \<Rightarrow> text_type option \<Rightarrow> string \<Rightarrow> string option \<Rightarrow> 'n \<Rightarrow> 'n \<Rightarrow> 'n option
     \<Rightarrow> string \<Rightarrow> string option \<Rightarrow> 'n option \<Rightarrow> 'n world \<Rightarrow> 'r outcome \<times> 'n world" where
  "create_text env type name parentId left topY width txt fontColor fontSize =
     try_catch
       (await (executeCommand env ''shape:create-shape''
                 (JObj [(''type'', JStr ''Text''),
                        (''shapeProps'',
                           JObj [(''name'', JStr name),
                                 (''left'', JNum left),
                                 (''width'', optN width),
                                 (''top'', JNum topY),
                                 (''text'', JStr txt),
                                 (''fontColor'', convertColor env fontColor),
                                 (''fontSize'', optN fontSize),
                                 (''wordWrap'', JBool (type = Some Paragraph))]),
                        (''parentId'', optS parentId)]))
          (\<lambda>shapeId.
        await (executeCommand env ''shape:get-shape'' (JObj [(''shapeId'', shapeId)]))
          (\<lambda>data.
        return (textResult env (''Created text: '' @
          JSON_stringify env
            (JObj (set_prop ''textType'' (optS (map_option text_type_name type))
                    (own_props (filterShape env data)))))))))
       (catch_report env ''Failed to create text: '')"

definition create_line ::
  "('n, 'r) tools \<Rightarrow> string \<Rightarrow> string option \<Rightarrow> ('n \<times> 'n) list \<Rightarrow> string option \<Rightarrow> string option
     \<Rightarrow> 'n world \<Rightarrow> 'r outcome \<times> 'n world" where
  "create_line env name parentId points fillColor strokeColor =
     try_catch
       (await (executeCommand env ''shape:create-shape''
                 (JObj [(''type'', JStr ''Line''),
                        (''shapeProps'',
                           JObj [(''name'', JStr name),
                                 (''path'', JArr (map (\<lambda>(x, y). JArr [JNum x, JNum y]) points)),
                                 (''fillColor'', convertColor env fillColor),
                                 (''strokeColor'', convertColor env strokeColor)]),
                        (''parentId'', optS parentId)]))
          (\<lambda>shapeId.
        await (executeCommand env ''shape:get-shape'' (JObj [(''shapeId'', shapeId)]))
          (\<lambda>data.
        return (textResult env (''Created line: '' @
          JSON_stringify env (filterShape env data))))))
       (catch_report env ''Failed to create line: '')"

datatype icon_size = small | medium | large | extra_large

fun sizeValue :: "icon_size \<Rightarrow> int" where
  "sizeValue small = 16"
| "sizeValue medium = 24"
| "sizeValue large = 32"
| "sizeValue extra_large = 48"

definition create_icon ::
  "('n, 'r) tools \<Rightarrow> string \<Rightarrow> string option \<Rightarrow> 'n \<Rightarrow> 'n \<Rightarrow> icon_size \<Rightarrow> string option
     \<Rightarrow> 'n world \<Rightarrow> 'r outcome \<times> 'n world" where
  "create_icon env name parentId left topY sz strokeColor =
     try_catch
       (await (executeCommand env ''shape:create-icon''
                 (JObj [(''iconName'', JStr name),
                        (''shapeProps'',
                           JObj [(''left'', JNum left),
                                 (''top'', JNum topY),
                                 (''width'', JNum (num_lit env (sizeValue sz))),
                                 (''height'', JNum (num_lit env (sizeValue sz))),
                                 (''strokeColor'', convertColor env strokeColor)]),
                        (''parentId'', optS parentId)]))
          (\<lambda>shapeId.
        await (executeCommand env ''shape:get-shape'' (JObj [(''shapeId'', shapeId)]))
          (\<lambda>data.
        return (textResult env (''Created icon: '' @
          JSON_stringify env (filterShape env data))))))
       (catch_report env ''Failed to create icon: '')"

definition update_shape ::
  "('n, 'r) tools \<Rightarrow> string \<Rightarrow> string option \<Rightarrow> 'n option \<Rightarrow> 'n option
     \<Rightarrow> string option \<Rightarrow> string option \<Rightarrow> string option \<Rightarrow> 'n option \<Rightarrow> 'n list option
     \<Rightarrow> 'n world \<Rightarrow> 'r outcome \<times> 'n world" where
  "update_shape env shapeId name width height strokeColor fillColor fontColor fontSize corners =
     try_catch
       (await (executeCommand env ''shape:update-shape''
                 (JObj [(''shapeId'', JStr shapeId),
                        (''shapeProps'',
                           JObj [(''name'', optS name),
                                 (''width'', optN width),
                                 (''height'', optN height),
                                 (''fillColor'', convertColor env fillColor),
                                 (''strokeColor'', convertColor env strokeColor),
                                 (''fontColor'', convertColor env fontColor),
                                 (''fontSize'', optN fontSize),
                                 (''corners'', optNs corners)])]))
          (\<lambda>updatedId.
        await (executeCommand env ''shape:get-shape'' (JObj [(''shapeId'', updatedId)]))
          (\<lambda>data.
        return (textResult env (''Updated shape: '' @
          JSON_stringify env (filterShape env data))))))
       (catch_report env ''Failed to update shape: '')"

definition delete_shape :: "('n, 'r) tools \<Rightarrow> string \<Rightarrow> 'n world \<Rightarrow> 'r outcome \<times> 'n world" where
  "delete_shape env shapeId =
     try_catch
       (await (executeCommand env ''edit:delete''
                 (JObj [(''shapeIdArray'', JArr [JStr shapeId])]))
          (\<lambda>done. return (textResult env (''Deleted shape of id: '' @ shapeId))))
       (catch_report env ''Failed to delete shape: '')"

definition get_available_icons :: "('n, 'r) tools \<Rightarrow> 'n world \<Rightarrow> 'r outcome \<times> 'n world" where
  "get_available_icons env =
     try_catch
       (await (executeCommand env ''shape:get-available-icons'' (JObj []))
          (\<lambda>data. return (textResult env (''Available icons: '' @ JSON_stringify env data))))
       (catch_report env ''Failed to get available icons: '')"

definition move_shape :: "('n, 'r) tools \<Rightarrow> string \<Rightarrow> 'n \<Rightarrow> 'n \<Rightarrow> 'n world \<Rightarrow> 'r outcome \<times> 'n world" where
  "move_shape env shapeId dx dy =
     try_catch
       (await (executeCommand env ''shape:move''
                 (JObj [(''shapeId'', JStr shapeId), (''dx'', JNum dx), (''dy'', JNum dy)]))
          (\<lambda>done. return (textResult env
             (''Moved shape (id: '' @ shapeId @ '') as ('' @ to_string env (JNum dx) @ '', '' @
              to_string env (JNum dy) @ '')''))))
       (catch_report env ''Failed to get available icons: '')"

subsection \<open>Pages\<close>

definition add_page :: "('n, 'r) tools \<Rightarrow> string \<Rightarrow> 'n world \<Rightarrow> 'r outcome \<times> 'n world" where
  "add_page env name =
     try_catch
       (await (executeCommand env ''page:add''
                 (JObj [(''pageProps'', JObj [(''name'', JStr name)])]))
          (\<lambda>pageData. return (textResult env (''Added page: '' @ JSON_stringify env pageData))))
       (catch_report env ''Failed to add new page: '')"

definition get_current_page_id :: "('n, 'r) tools \<Rightarrow> 'n world \<Rightarrow> 'r outcome \<times> 'n world" where
  "get_current_page_id env =
     try_catch
       (await (executeCommand env ''page:get-current-page'' JUndefined)
          (\<lambda>pageId. return (textResult env
             (''Current page ID is '' @ to_string env pageId @ '',''))))
       (catch_report env ''Failed to get current page: '')"

definition set_current_page_by_id :: "('n, 'r) tools \<Rightarrow> string \<Rightarrow> 'n world \<Rightarrow> 'r outcome \<times> 'n world" where
  "set_current_page_by_id env pageId =
     try_catch
       (await (executeCommand env ''page:set-current-page'' (JObj [(''pageId'', JStr pageId)]))
          (\<lambda>done. return (textResult env (''Current page ID is '' @ pageId))))
       (catch_report env ''Failed to set current page: '')"

definition get_page :: "('n, 'r) tools \<Rightarrow> string option \<Rightarrow> bool \<Rightarrow> 'n world \<Rightarrow> 'r outcome \<times> 'n world" where
  "get_page env pageId exportShapes =
     try_catch
       (await (executeCommand env ''page:get''
                 (JObj [(''pageId'', optS pageId), (''exportShapes'', JBool exportShapes)]))
          (\<lambda>pageData. return (textResult env
             (''The page data: '' @ JSON_stringify env (filterPage env pageData)))))
       (catch_report env ''Failed to get page data: '')"

text \<open>
  \<open>docData.children\<close> after the statement
  \<open>if (!Array.isArray(docData.children)) docData.children = []\<close>. Reading a property of
  \<open>null\<close> or \<open>undefined\<close> throws a \<open>TypeError\<close>, and so does, in a module (strict
  mode), creating a property on a primitive value. An array accepts the new property.
\<close>

fun children_or_empty :: "('n, 'r) tools \<Rightarrow> 'n json \<Rightarrow> js_error + 'n json list" where
  "children_or_empty env (JObj fs) =
     (case get_prop fs ''children'' of JArr pages \<Rightarrow> Inr pages | other \<Rightarrow> Inr [])"
| "children_or_empty env (JArr xs) = Inr []"
| "children_or_empty env docData = Inl (TypeError (TypeError_message env docData))"

definition get_all_pages :: "('n, 'r) tools \<Rightarrow> bool \<Rightarrow> 'n world \<Rightarrow> 'r outcome \<times> 'n world" where
  "get_all_pages env exportShapes =
     try_catch
       (await (executeCommand env ''doc:get''
                 (JObj [(''exportPages'', JBool True), (''exportShapes'', JBool exportShapes)]))
          (\<lambda>docData.
             case children_or_empty env docData of
               Inl error \<Rightarrow> (\<lambda>w. (Throws error, w))
             | Inr children \<Rightarrow>
                 return (textResult env (''The all pages data: '' @
                   JSON_stringify env (JArr (map (filterPage env) children))))))
       (catch_report env ''Failed to get page data: '')"

text \<open>The catalogue: one constructor per registered tool, with its validated arguments.\<close>

datatype 'n tool_call =
    Create_frame frame_type string 'n 'n "string option"
  | Create_rectangle string "string option" 'n 'n 'n 'n
      "string option" "string option" "'n list option"
  | Create_ellipse string "string option" 'n 'n 'n 'n "string option" "string option"
  | Create_text "text_type option" string "string option" 'n 'n "'n option" string
      "string option" "'n option"
  | Create_line string "string option" "('n \<times> 'n) list" "string option" "string option"
  | Create_icon string "string option" 'n 'n icon_size "string option"
  | Update_shape string "string option" "'n option" "'n option"
      "string option" "string option" "string option" "'n option" "'n list option"
  | Delete_shape string
  | Get_available_icons
  | Move_shape string 'n 'n
  | Add_page string
  | Get_current_page_id
  | Set_current_page_by_id string
  | Get_page "string option" bool
  | Get_all_pages bool

fun call_tool :: "('n, 'r) tools \<Rightarrow> 'n tool_call \<Rightarrow> 'n world \<Rightarrow> 'r outcome \<times> 'n world" where
  "call_tool env (Create_frame frameType name left topY fillColor) =
     create_frame env frameType name left topY fillColor"
| "call_tool env (Create_rectangle name parentId left topY width height fillColor strokeColor
       corners) =
     create_rectangle env name parentId left topY width height fillColor strokeColor corners"
| "call_tool env (Create_ellipse name parentId left topY width height fillColor strokeColor) =
     create_ellipse env name parentId left topY width height fillColor strokeColor"
| "call_tool env (Create_text type name parentId left topY width txt fontColor fontSize) =
     create_text env type name parentId left topY width txt fontColor fontSize"
| "call_tool env (Create_line name parentId points fillColor strokeColor) =
     create_line env name parentId points fillColor strokeColor"
| "call_tool env (Create_icon name parentId left topY sz strokeColor) =
     create_icon env name parentId left topY sz strokeColor"
| "call_tool env (Update_shape shapeId name width height strokeColor fillColor fontColor
       fontSize corners) =
     update_shape env shapeId name width height strokeColor fillColor fontColor fontSize corners"
| "call_tool env (Delete_shape shapeId) = delete_shape env shapeId"
| "call_tool env Get_available_icons = get_available_icons env"
| "call_tool env (Move_shape shapeId dx dy) = move_shape env shapeId dx dy"
| "call_tool env (Add_page name) = add_page env name"
| "call_tool env Get_current_page_id = get_current_page_id env"
| "call_tool env (Set_current_page_by_id pageId) = set_current_page_by_id env pageId"
| "call_tool env (Get_page pageId exportShapes) = get_page env pageId exportShapes"
| "call_tool env (Get_all_pages exportShapes) = get_all_pages env exportShapes"

section \<open>The tool layer of index.ts, second variant\<close>

text \<open>
  The second variant registers ten tools. Colours are passed on as given, names are
  optional, and the frame is created with the size the caller asks for.
\<close>

definition create_frame2 ::
  "('n, 'r) tools \<Rightarrow> library_frame \<Rightarrow> 'n \<Rightarrow> 'n \<Rightarrow> 'n \<Rightarrow> 'n \<Rightarrow> string option \<Rightarrow> 'n world
     \<Rightarrow> 'r outcome \<times> 'n world" where
  "create_frame2 env frameType left topY width height fillColor =
     try_catch
       (await (executeCommand env ''shape:create-shape-from-library-by-query''
                 (JObj [(''query'', JStr (library_frame_name frameType @ ''&@Frame'')),
                        (''shapeProps'',
                           JObj [(''left'', JNum left),
                                 (''top'', JNum topY),
                                 (''width'', JNum width),
                                 (''height'', JNum height),
                                 (''fillColor'', optS fillColor)])]))
          (\<lambda>shapeId.
        await (executeCommand env ''view:fit-to-screen'' JUndefined)
          (\<lambda>fitted.
        await (executeCommand env ''shape:get-shape'' (JObj [(''shapeId'', shapeId)]))
          (\<lambda>data.
        return (textResult env (''Created frame: '' @
          JSON_stringify env (filterShape env data)))))))
       (catch_report env ''Failed to create frame: '')"

definition create_rectangle2 ::
  "('n, 'r) tools \<Rightarrow> string option \<Rightarrow> string option \<Rightarrow> 'n \<Rightarrow> 'n \<Rightarrow> 'n \<Rightarrow> 'n
     \<Rightarrow> string option \<Rightarrow> string option \<Rightarrow> 'n list option \<Rightarrow> 'n world \<Rightarrow> 'r outcome \<times> 'n world" where
  "create_rectangle2 env name parentId left topY width height fillColor strokeColor corners =
     try_catch
       (await (executeCommand env ''shape:create-shape''
                 (JObj [(''type'', JStr ''Rectangle''),
                        (''shapeProps'',
                           JObj [(''name'', optS name),
                                 (''left'', JNum left),
                                 (''top'', JNum topY),
                                 (''width'', JNum width),
                                 (''height'', JNum height),
                                 (''fillColor'', optS fillColor),
                                 (''strokeColor'', optS strokeColor),
                                 (''corners'', optNs corners)]),
                        (''parentId'', optS parentId)]))
          (\<lambda>shapeId.
        await (executeCommand env ''shape:get-shape'' (JObj [(''shapeId'', shapeId)]))
          (\<lambda>data.
        return (textResult env (''Created rectangle: '' @
          JSON_stringify env (filterShape env data))))))
       (catch_report env ''Failed to create rectangle: '')"

definition create_ellipse2 ::
  "('n, 'r) tools \<Rightarrow> string option \<Rightarrow> string option \<Rightarrow> 'n \<Rightarrow> 'n \<Rightarrow> 'n \<Rightarrow> 'n
     \<Rightarrow> string option \<Rightarrow> string option \<Rightarrow> 'n world \<Rightarrow> 'r outcome \<times> 'n world" where
  "create_ellipse2 env name parentId left topY width height fillColor strokeColor =
     try_catch
       (await (executeCommand env ''shape:create-shape''
                 (JObj [(''type'', JStr ''Ellipse''),
                        (''shapeProps'',
                           JObj [(''name'', optS name),
                                 (''left'', JNum left),
                                 (''top'', JNum topY),
                                 (''width'', JNum width),
                                 (''height'', JNum height),
                                 (''fillColor'', optS fillColor),
                                 (''strokeColor'', optS strokeColor)]),
                        (''parentId'', optS parentId)]))
          (\<lambda>shapeId.
        await (executeCommand env ''shape:get-shape'' (JObj [(''shapeId'', shapeId)]))
          (\<lambda>data.
        return (textResult env (''Created ellipse: '' @
          JSON_stringify env (filterShape env data))))))
       (catch_report env ''Failed to create ellipse: '')"

definition create_text2 ::
  "('n, 'r) tools \<Rightarrow> string option \<Rightarrow> string option \<Rightarrow> 'n \<Rightarrow> 'n \<Rightarrow> string \<Rightarrow> string option
     \<Rightarrow> 'n option \<Rightarrow> 'n world \<Rightarrow> 'r outcome \<times> 'n world" where
  "create_text2 env name parentId left topY txt fontColor fontSize =
     try_catch
       (await (executeCommand env ''shape:create-shape''
                 (JObj [(''type'', JStr ''Text''),
                        (''shapeProps'',
                           JObj [(''name'', optS name),
                                 (''left'', JNum left),
                                 (''top'', JNum topY),
                                 (''text'', JStr txt),
                                 (''fontColor'', optS fontColor),
                                 (''fontSize'', optN fontSize)]),
                        (''parentId'', optS parentId)]))
          (\<lambda>shapeId.
        await (executeCommand env ''shape:get-shape'' (JObj [(''shapeId'', shapeId)]))
          (\<lambda>data.
        return (textResult env (''Created text: '' @
          JSON_stringify env (filterShape env data))))))
       (catch_report env ''Failed to create text: '')"

definition create_line2 ::
  "('n, 'r) tools \<Rightarrow> string option \<Rightarrow> string option \<Rightarrow> ('n \<times> 'n) list \<Rightarrow> string option
     \<Rightarrow> string option \<Rightarrow> 'n world \<Rightarrow> 'r outcome \<times> 'n world" where
  "create_line2 env name parentId points fillColor strokeColor =
     try_catch
       (await (executeCommand env ''shape:create-shape''
                 (JObj [(''type'', JStr ''Line''),
                        (''shapeProps'',
                           JObj [(''name'', optS name),
                                 (''path'', JArr (map (\<lambda>(x, y). JArr [JNum x, JNum y]) points)),
                                 (''fillColor'', optS fillColor),
                                 (''strokeColor'', optS strokeColor)]),
                        (''parentId'', optS parentId)]))
          (\<lambda>shapeId.
        await (executeCommand env ''shape:get-shape'' (JObj [(''shapeId'', shapeId)]))
          (\<lambda>data.
        return (textResult env (''Created line: '' @
          JSON_stringify env (filterShape env data))))))
       (catch_report env ''Failed to create line: '')"

definition create_icon2 ::
  "('n, 'r) tools \<Rightarrow> string \<Rightarrow> string option \<Rightarrow> 'n \<Rightarrow> 'n \<Rightarrow> 'n \<Rightarrow> 'n \<Rightarrow> string option
     \<Rightarrow> 'n world \<Rightarrow> 'r outcome \<times> 'n world" where
  "create_icon2 env name parentId left topY width height strokeColor =
     try_catch
       (await (executeCommand env ''shape:create-icon''
                 (JObj [(''iconName'', JStr name),
                        (''shapeProps'',
                           JObj [(''left'', JNum left),
                                 (''top'', JNum topY),
                                 (''width'', JNum width),
                                 (''height'', JNum height),
                                 (''strokeColor'', optS strokeColor)]),
                        (''parentId'', optS parentId)]))
          (\<lambda>shapeId.
        await (executeCommand env ''shape:get-shape'' (JObj [(''shapeId'', shapeId)]))
          (\<lambda>data.
        return (textResult env (''Created icon: '' @
          JSON_stringify env (filterShape env data))))))
       (catch_report env ''Failed to create icon: '')"

text \<open>\<open>others\<close> holds the remaining validated arguments, in the order they were given.\<close>

definition update_shape2 ::
  "('n, 'r) tools \<Rightarrow> string \<Rightarrow> (string \<times> 'n json) list \<Rightarrow> 'n world \<Rightarrow> 'r outcome \<times> 'n world" where
  "update_shape2 env shapeId others =
     try_catch
       (await (executeCommand env ''shape:update-shape''
                 (JObj [(''shapeId'', JStr shapeId), (''shapeProps'', JObj others)]))
          (\<lambda>updatedId.
        await (executeCommand env ''shape:get-shape'' (JObj [(''shapeId'', updatedId)]))
          (\<lambda>data.
        return (textResult env (''Updated shape: '' @
          JSON_stringify env (filterShape env data))))))
       (catch_report env ''Failed to update shape: '')"

definition delete_shape2 :: "('n, 'r) tools \<Rightarrow> string \<Rightarrow> 'n world \<Rightarrow> 'r outcome \<times> 'n world" where
  "delete_shape2 env shapeId =
     try_catch
       (await (executeCommand env ''shape:update-shape''
                 (JObj [(''shapeIdArray'', JArr [JStr shapeId])]))
          (\<lambda>done. return (textResult env (''Deleted shape of id: '' @ shapeId))))
       (catch_report env ''Failed to delete shape: '')"

definition get_available_icons2 :: "('n, 'r) tools \<Rightarrow> 'n world \<Rightarrow> 'r outcome \<times> 'n world" where
  "get_available_icons2 env =
     try_catch
       (await (executeCommand env ''shape:get-available-icons'' (JObj []))
          (\<lambda>data. return (textResult env (''Available icons: '' @ JSON_stringify env data))))
       (catch_report env ''Failed to get available icons: '')"

definition move_shape2 :: "('n, 'r) tools \<Rightarrow> string \<Rightarrow> 'n \<Rightarrow> 'n \<Rightarrow> 'n world \<Rightarrow> 'r outcome \<times> 'n world" where
  "move_shape2 env shapeId dx dy =
     try_catch
       (await (executeCommand env ''shape:move''
                 (JObj [(''shapeId'', JStr shapeId), (''dx'', JNum dx), (''dy'', JNum dy)]))
          (\<lambda>done. return (textResult env
             (''Moved shape (id: '' @ shapeId @ '') as ('' @ to_string env (JNum dx) @ '', '' @
              to_string env (JNum dy) @ '')''))))
       (catch_report env ''Failed to get available icons: '')"

datatype 'n tool_call2 =
    Create_frame2 library_frame 'n 'n 'n 'n "string option"
  | Create_rectangle2 "string option" "string option" 'n 'n 'n 'n
      "string option" "string option" "'n list option"
  | Create_ellipse2 "string option" "string option" 'n 'n 'n 'n
      "string option" "string option"
  | Create_text2 "string option" "string option" 'n 'n string "string option" "'n option"
  | Create_line2 "string option" "string option" "('n \<times> 'n) list"
      "string option" "string option"
  | Create_icon2 string "string option" 'n 'n 'n 'n "string option"
  | Update_shape2 string "(string \<times> 'n json) list"
  | Delete_shape2 string
  | Get_available_icons2
  | Move_shape2 string 'n 'n

fun call_tool2 :: "('n, 'r) tools \<Rightarrow> 'n tool_call2 \<Rightarrow> 'n world \<Rightarrow> 'r outcome \<times> 'n world" where
  "call_tool2 env (Create_frame2 frameType left topY width height fillColor) =
     create_frame2 env frameType left topY width height fillColor"
| "call_tool2 env (Create_rectangle2 name parentId left topY width height fillColor
       strokeColor corners) =
     create_rectangle2 env name parentId left topY width height fillColor strokeColor corners"
| "call_tool2 env (Create_ellipse2 name parentId left topY width height fillColor
       strokeColor) =
     create_ellipse2 env name parentId left topY width height fillColor strokeColor"
| "call_tool2 env (Create_text2 name parentId left topY txt fontColor fontSize) =
     create_text2 env name parentId left topY txt fontColor fontSize"
| "call_tool2 env (Create_line2 name parentId points fillColor strokeColor) =
     create_line2 env name parentId points fillColor strokeColor"
| "call_tool2 env (Create_icon2 name parentId left topY width height strokeColor) =
     create_icon2 env name parentId left topY width height strokeColor"
| "call_tool2 env (Update_shape2 shapeId others) = update_shape2 env shapeId others"
| "call_tool2 env (Delete_shape2 shapeId) = delete_shape2 env shapeId"
| "call_tool2 env Get_available_icons2 = get_available_icons2 env"
| "call_tool2 env (Move_shape2 shapeId dx dy) = move_shape2 env shapeId dx dy"

section \<open>What a run of a handler did\<close>

text \<open>The commands that a run, started in the state \<open>w\<close>, handed to \<open>executeCommand\<close>.\<close>

definition sent_by :: "'n world \<Rightarrow> 'a \<times> 'n world \<Rightarrow> (string \<times> 'n json) list" where
  "sent_by w run = drop (length (commands w)) (commands (snd run))"



text \<open>The label that the \<open>catch\<close> block of each handler puts before the error.\<close>

fun failure_label :: "'n tool_call \<Rightarrow> string" where
  "failure_label (Create_frame frameType name left topY fillColor) = ''Failed to create frame: ''"
| "failure_label (Create_rectangle name parentId left topY width height fillColor strokeColor
       corners) = ''Failed to create rectangle: ''"
| "failure_label (Create_ellipse name parentId left topY width height fillColor strokeColor) =
     ''Failed to create ellipse: ''"
| "failure_label (Create_text type name parentId left topY width txt fontColor fontSize) =
     ''Failed to create text: ''"
| "failure_label (Create_line name parentId points fillColor strokeColor) =
     ''Failed to create line: ''"
| "failure_label (Create_icon name parentId left topY sz strokeColor) =
     ''Failed to create icon: ''"
| "failure_label (Update_shape shapeId name width height strokeColor fillColor fontColor
       fontSize corners) = ''Failed to update shape: ''"
| "failure_label (Delete_shape shapeId) = ''Failed to delete shape: ''"
| "failure_label Get_available_icons = ''Failed to get available icons: ''"
| "failure_label (Move_shape shapeId dx dy) = ''Failed to get available icons: ''"
| "failure_label (Add_page name) = ''Failed to add new page: ''"
| "failure_label Get_current_page_id = ''Failed to get current page: ''"
| "failure_label (Set_current_page_by_id pageId) = ''Failed to set current page: ''"
| "failure_label (Get_page pageId exportShapes) = ''Failed to get page data: ''"
| "failure_label (Get_all_pages exportShapes) = ''Failed to get page data: ''"

fun failure_label2 :: "'n tool_call2 \<Rightarrow> string" where
  "failure_label2 (Create_frame2 frameType left topY width height fillColor) =
     ''Failed to create frame: ''"
| "failure_label2 (Create_rectangle2 name parentId left topY width height fillColor
       strokeColor corners) = ''Failed to create rectangle: ''"
| "failure_label2 (Create_ellipse2 name parentId left topY width height fillColor
       strokeColor) = ''Failed to create ellipse: ''"
| "failure_label2 (Create_text2 name parentId left topY txt fontColor fontSize) =
     ''Failed to create text: ''"
| "failure_label2 (Create_line2 name parentId points fillColor strokeColor) =
     ''Failed to create line: ''"
| "failure_label2 (Create_icon2 name parentId left topY width height strokeColor) =
     ''Failed to create icon: ''"
| "failure_label2 (Update_shape2 shapeId others) = ''Failed to update shape: ''"
| "failure_label2 (Delete_shape2 shapeId) = ''Failed to delete shape: ''"
| "failure_label2 Get_available_icons2 = ''Failed to get available icons: ''"
| "failure_label2 (Move_shape2 shapeId dx dy) = ''Failed to get available icons: ''"

section \<open>The commands a handler is written to send\<close>

text \<open>
  The first \<open>executeCommand\<close> call of each handler, as a pair of the command name and
  its parameters, and the calls that follow it in the text of the handler, in their order;
  the parameters of \<open>shape:get-shape\<close> hold the answer \<open>x\<close> to the first command.
\<close>

fun first_command :: "('n, 'r) tools \<Rightarrow> 'n tool_call \<Rightarrow> string \<times> 'n json" where
  "first_command env (Create_frame frameType name left topY fillColor) =
     (''shape:create-shape-from-library-by-query'',
      JObj [(''query'', JStr (FRAME_NAME frameType @ ''&@Frame'')),
            (''shapeProps'',
               JObj [(''name'', JStr name),
                     (''left'', JNum left),
                     (''top'',
                        JNum (num_sub env topY (num_lit env (FRAME_HEADER_HEIGHT frameType)))),
                     (''width'', JNum (frame_width (FRAME_SIZE env frameType))),
                     (''height'',
                        JNum (num_add env (frame_height (FRAME_SIZE env frameType))
                                (num_lit env (FRAME_HEADER_HEIGHT frameType)))),
                     (''fillColor'', convertColor env fillColor)])])"
| "first_command env (Create_rectangle name parentId left topY width height fillColor
      strokeColor corners) =
     (''shape:create-shape'',
      JObj [(''type'', JStr ''Rectangle''),
            (''shapeProps'',
               JObj [(''name'', JStr name),
                     (''left'', JNum left),
                     (''top'', JNum topY),
                     (''width'', JNum width),
                     (''height'', JNum height),
                     (''fillColor'', convertColor env fillColor),
                     (''strokeColor'', convertColor env strokeColor),
                     (''corners'', optNs corners)]),
            (''parentId'', optS parentId)])"
| "first_command env (Create_ellipse name parentId left topY width height fillColor
      strokeColor) =
     (''shape:create-shape'',
      JObj [(''type'', JStr ''Ellipse''),
            (''shapeProps'',
               JObj [(''name'', JStr name),
                     (''left'', JNum left),
                     (''top'', JNum topY),
                     (''width'', JNum width),
                     (''height'', JNum height),
                     (''fillColor'', convertColor env fillColor),
                     (''strokeColor'', convertColor env strokeColor)]),
            (''parentId'', optS parentId)])"
| "first_command env (Create_text type name parentId left topY width txt fontColor
      fontSize) =
     (''shape:create-shape'',
      JObj [(''type'', JStr ''Text''),
            (''shapeProps'',
               JObj [(''name'', JStr name),
                     (''left'', JNum left),
                     (''width'', optN width),
                     (''top'', JNum topY),
                     (''text'', JStr txt),
                     (''fontColor'', convertColor env fontColor),
                     (''fontSize'', optN fontSize),
                     (''wordWrap'', JBool (type = Some Paragraph))]),
            (''parentId'', optS parentId)])"
| "first_command env (Create_line name parentId points fillColor strokeColor) =
     (''shape:create-shape'',
      JObj [(''type'', JStr ''Line''),
            (''shapeProps'',
               JObj [(''name'', JStr name),
                     (''path'', JArr (map (\<lambda>(x, y). JArr [JNum x, JNum y]) points)),
                     (''fillColor'', convertColor env fillColor),
                     (''strokeColor'', convertColor env strokeColor)]),
            (''parentId'', optS parentId)])"
| "first_command env (Create_icon name parentId left topY sz strokeColor) =
     (''shape:create-icon'',
      JObj [(''iconName'', JStr name),
            (''shapeProps'',
               JObj [(''left'', JNum left),
                     (''top'', JNum topY),
                     (''width'', JNum (num_lit env (sizeValue sz))),
                     (''height'', JNum (num_lit env (sizeValue sz))),
                     (''strokeColor'', convertColor env strokeColor)]),
            (''parentId'', optS parentId)])"
| "first_command env (Update_shape shapeId name width height strokeColor fillColor
      fontColor fontSize corners) =
     (''shape:update-shape'',
      JObj [(''shapeId'', JStr shapeId),
            (''shapeProps'',
               JObj [(''name'', optS name),
                     (''width'', optN width),
                     (''height'', optN height),
                     (''fillColor'', convertColor env fillColor),
                     (''strokeColor'', convertColor env strokeColor),
                     (''fontColor'', convertColor env fontColor),
                     (''fontSize'', optN fontSize),
                     (''corners'', optNs corners)])])"
| "first_command env (Delete_shape shapeId) =
     (''edit:delete'',
      JObj [(''shapeIdArray'', JArr [JStr shapeId])])"
| "first_command env Get_available_icons =
     (''shape:get-available-icons'',
      JObj [])"
| "first_command env (Move_shape shapeId dx dy) =
     (''shape:move'',
      JObj [(''shapeId'', JStr shapeId), (''dx'', JNum dx), (''dy'', JNum dy)])"
| "first_command env (Add_page name) =
     (''page:add'',
      JObj [(''pageProps'', JObj [(''name'', JStr name)])])"
| "first_command env Get_current_page_id =
     (''page:get-current-page'',
      JUndefined)"
| "first_command env (Set_current_page_by_id pageId) =
     (''page:set-current-page'',
      JObj [(''pageId'', JStr pageId)])"
| "first_command env (Get_page pageId exportShapes) =
     (''page:get'',
      JObj [(''pageId'', optS pageId), (''exportShapes'', JBool exportShapes)])"
| "first_command env (Get_all_pages exportShapes) =
     (''doc:get'',
      JObj [(''exportPages'', JBool True), (''exportShapes'', JBool exportShapes)])"







section \<open>Sample environments\<close>

text \<open>
  A plain serializer and concrete environments, for running the model on examples. The
  numbers of the examples are whole numbers, with exact arithmetic.
\<close>

definition show_int :: "int \<Rightarrow> string" where
  "show_int n = (if n < 0 then ''-'' @ decimal (nat (- n)) else decimal (nat n))"

fun join :: "string list \<Rightarrow> string" where
  "join [] = []"
| "join [x] = x"
| "join (x # y # ys) = x @ '','' @ join (y # ys)"

fun sample_stringify :: "int json \<Rightarrow> string" where
  "sample_stringify JUndefined = ''undefined''"
| "sample_stringify JNull = ''null''"
| "sample_stringify (JBool b) = (if b then ''true'' else ''false'')"
| "sample_stringify (JNum n) = show_int n"
| "sample_stringify (JStr s) = [CHR 0x22] @ s @ [CHR 0x22]"
| "sample_stringify (JArr xs) = ''['' @ join (map sample_stringify xs) @ '']''"
| "sample_stringify (JObj fs) =
     ''{'' @ join (map (\<lambda>(k, v). [CHR 0x22] @ k @ [CHR 0x22] @ '':'' @ sample_stringify v)
                    (filter (\<lambda>(k, v). v \<noteq> JUndefined) fs)) @ ''}''"

text \<open>A server that accepts the request and never answers.\<close>

definition silent_net :: "int net" where
  "silent_net =
     \<lparr> JSON_stringify = sample_stringify,
       to_string = sample_stringify,
       TypeError_message = (\<lambda>v. ''Cannot use '' @ sample_stringify v),
       num_lit = (\<lambda>i. i),
       num_sub = (\<lambda>a b. a - b),
       num_add = (\<lambda>a b. a + b),
       fetch = (\<lambda>sent. Pending) \<rparr>"

text \<open>A server that answers every request with a non-ok response whose body is given.\<close>

definition refusing_net :: "int json \<Rightarrow> int net" where
  "refusing_net payload =
     \<lparr> JSON_stringify = sample_stringify,
       to_string = sample_stringify,
       TypeError_message = (\<lambda>v. ''Cannot use '' @ sample_stringify v),
       num_lit = (\<lambda>i. i),
       num_sub = (\<lambda>a b. a - b),
       num_add = (\<lambda>a b. a + b),
       fetch = (\<lambda>sent. Returns \<lparr> ok = False, res_json = Returns payload \<rparr>) \<rparr>"

text \<open>A server that answers every request with an ok response whose body is given.\<close>

definition answering_net :: "int json \<Rightarrow> int net" where
  "answering_net payload =
     \<lparr> JSON_stringify = sample_stringify,
       to_string = sample_stringify,
       TypeError_message = (\<lambda>v. ''Cannot use '' @ sample_stringify v),
       num_lit = (\<lambda>i. i),
       num_sub = (\<lambda>a b. a - b),
       num_add = (\<lambda>a b. a + b),
       fetch = (\<lambda>sent. Returns \<lparr> ok = True, res_json = Returns payload \<rparr>) \<rparr>"

text \<open>
  Tool environments over a given bridge: the filters drop the property \<open>noise\<close> of an
  object, colours get a dollar sign, and the text result is the text itself.
\<close>

fun drop_noise :: "int json \<Rightarrow> int json" where
  "drop_noise (JObj fs) = JObj (filter (\<lambda>(k, v). k \<noteq> ''noise'') fs)"
| "drop_noise v = v"

definition sample_tools :: "((string \<times> int json) list \<Rightarrow> int json outcome) \<Rightarrow> (int, string) tools" where
  "sample_tools b =
     \<lparr> JSON_stringify = sample_stringify,
       to_string = sample_stringify,
       TypeError_message = (\<lambda>v. ''Cannot use '' @ sample_stringify v),
       num_lit = (\<lambda>i. i),
       num_sub = (\<lambda>a b. a - b),
       num_add = (\<lambda>a b. a + b),
       bridge = b,
       filterShape = drop_noise,
       filterPage = drop_noise,
       textResult = (\<lambda>t. t),
       convertColor = (\<lambda>c. optS (map_option (\<lambda>s. ''$'' @ s) c)) \<rparr>"

definition sample_payload :: "int json" where
  "sample_payload =
     JObj [(''id'', JStr ''p1''), (''noise'', JNum 7),
           (''children'', JArr [JObj [(''id'', JStr ''s1''), (''noise'', JNum 8)]])]"

text \<open>
  Bridges that fail: at once, and after the first command; and a bridge that answers the
  three commands of \<open>create_frame\<close>.
\<close>

definition failing_bridge :: "(string \<times> int json) list \<Rightarrow> int json outcome" where
  "failing_bridge sent = Throws (Error ''Timeout'')"

definition failing_read :: "(string \<times> int json) list \<Rightarrow> int json outcome" where
  "failing_read sent =
     (case sent of [first] \<Rightarrow> Returns (JStr ''shp_1'') | other \<Rightarrow> Throws (Error ''Timeout''))"

definition frame_bridge :: "(string \<times> int json) list \<Rightarrow> int json outcome" where
  "frame_bridge sent =
     (case sent of
        [created] \<Rightarrow> Returns (JStr ''frm_1'')
      | [created, fitted] \<Rightarrow> Returns JNull
      | other \<Rightarrow> Returns (JObj [(''id'', JStr ''frm_1''), (''top'', JNum 0),
                                 (''height'', JNum 600), (''noise'', JNum 7)]))"

definition empty_world :: "int world" where
  "empty_world = \<lparr> commands = [], stderr = [] \<rparr>"

section \<open>The core operation of the first revision\<close>

lemmas run_defs =
  try_catch_def await_def return_def executeCommand_def catch_report_def Let_def

text \<open>
  C1, as stated, fails: a call whose request is accepted and never answered is never
  settled. The server \<open>silent_net\<close> does that.
\<close>

theorem requestToFrame0_may_never_settle:
  "\<not> settled (fst (requestToFrame0 silent_net ''/create_shape'' (JObj []) []))"
  by (simp add: requestToFrame0_def silent_net_def settled_def Let_def)

text \<open>
  C1 (amended): a call of \<open>requestToFrame0\<close> is settled exactly when the transport
  settles, that is when \<open>fetch\<close> settles and, for an ok response, reading its body
  settles. It returns \<open>d\<close> exactly when an ok response decodes to \<open>d\<close>, and it
  raises \<open>e\<close> exactly when \<open>fetch\<close> rejects with \<open>e\<close>, the body of an ok response
  fails to decode with \<open>e\<close>, or the response is not ok and \<open>e\<close> is the error the
  function throws itself. The outcome is a single value, so the call is settled at most
  once.
\<close>

theorem requestToFrame0_settles_with_transport:
  assumes "fetch env (sent @ [request_of env slug params]) = r"
  shows "settled (fst (requestToFrame0 env slug params sent)) =
           (settled r \<and> (\<forall>res. r = Returns res \<and> ok res \<longrightarrow> settled (res_json res)))
         \<and> (fst (requestToFrame0 env slug params sent) = Returns d) =
             (\<exists>res. r = Returns res \<and> ok res \<and> res_json res = Returns d)
         \<and> (fst (requestToFrame0 env slug params sent) = Throws e) =
             (r = Throws e \<or>
              (\<exists>res. r = Returns res \<and>
                 (if ok res then res_json res = Throws e
                  else e = Error ''Failed to create rectangle'')))"
  using assms
  by (auto simp add: requestToFrame0_def settled_def Let_def split: outcome.splits)

theorem requestToFrame0_settles_with_transport_witness:
  "settled (fst (requestToFrame0 (answering_net (JObj [(''id'', JStr ''shp_1'')]))
                  ''/create_shape'' (JObj []) []))
   \<and> fst (requestToFrame0 (answering_net (JObj [(''id'', JStr ''shp_1'')]))
            ''/create_shape'' (JObj []) [])
       = Returns (JObj [(''id'', JStr ''shp_1'')])"
  using requestToFrame0_settles_with_transport
    [of "answering_net (JObj [(''id'', JStr ''shp_1'')])" "[]" "''/create_shape''" "JObj []"
        "Returns \<lparr> ok = True, res_json = Returns (JObj [(''id'', JStr ''shp_1'')]) \<rparr>"
        "JObj [(''id'', JStr ''shp_1'')]"]
  by (simp add: answering_net_def settled_def)

text \<open>
  C2, as stated, fails: no response ever arrives from \<open>silent_net\<close>, and the call does
  not end with a failure of any kind; it stays pending.
\<close>

theorem requestToFrame0_no_timeout_failure:
  "fetch silent_net [request_of silent_net ''/update_shape'' (JObj [(''id'', JStr ''s1'')])]
     = Pending
   \<and> fst (requestToFrame0 silent_net ''/update_shape'' (JObj [(''id'', JStr ''s1'')]) [])
     = Pending"
  by (simp add: requestToFrame0_def silent_net_def Let_def)

text \<open>
  C2 (amended): \<open>requestToFrame0\<close> has no deadline. When no response arrives, the call
  stays pending for ever, with its one request sent; it never ends with a timeout.
\<close>

theorem requestToFrame0_has_no_deadline:
  assumes "fetch env (sent @ [request_of env slug params]) = Pending"
  shows "requestToFrame0 env slug params sent = (Pending, sent @ [request_of env slug params])"
  using assms by (simp add: requestToFrame0_def Let_def)

theorem requestToFrame0_has_no_deadline_witness:
  "fetch silent_net ([] @ [request_of silent_net ''/create_shape'' (JObj [])]) = Pending \<and>
   requestToFrame0 silent_net ''/create_shape'' (JObj []) []
     = (Pending, [\<lparr> url = ''http://localhost:3000/create_shape'', http_method = ''POST'',
          headers = [(''Content-Type'', ''application/json'')], body = ''{}'' \<rparr>])"
proof -
  have h: "fetch silent_net ([] @ [request_of silent_net ''/create_shape'' (JObj [])]) = Pending"
    by (simp add: silent_net_def)
  show ?thesis
    using h requestToFrame0_has_no_deadline [OF h]
    by (simp add: request_of_def URL_def silent_net_def)
qed

text \<open>
  C3, as stated, fails: the application answers \<open>/update_shape\<close> with a non-ok response
  whose body is \<open>{message: "not found"}\<close>, and the failure raised does not carry
  \<open>not found\<close>.
\<close>

theorem requestToFrame0_drops_application_message:
  "fst (requestToFrame0 (refusing_net (JObj [(''message'', JStr ''not found'')]))
         ''/update_shape'' (JObj [(''id'', JStr ''missing'')]) [])
     = Throws (Error ''Failed to create rectangle'')
   \<and> \<not> occurs_in ''not found'' (error_toString (Error ''Failed to create rectangle''))"
  by (simp add: requestToFrame0_def refusing_net_def Let_def error_toString_def)

text \<open>
  C3 (amended): when the application reports failure with a non-ok response, the call
  raises a failure that is fixed without reading the response: two non-ok responses to the
  same call raise the same failure, whatever their bodies say.
\<close>

theorem requestToFrame0_failure_ignores_body:
  assumes "fetch env (sent @ [request_of env slug params]) = Returns res" and "\<not> ok res"
    and "fetch env' (sent' @ [request_of env' slug params]) = Returns res'" and "\<not> ok res'"
  shows "fst (requestToFrame0 env slug params sent) = fst (requestToFrame0 env' slug params sent')
         \<and> (\<exists>e. fst (requestToFrame0 env slug params sent) = Throws e)"
  using assms by (simp add: requestToFrame0_def Let_def)

theorem requestToFrame0_failure_ignores_body_witness:
  "fst (requestToFrame0 (refusing_net (JObj [(''message'', JStr ''not found'')]))
         ''/update_shape'' (JObj []) [])
   = fst (requestToFrame0 (refusing_net (JObj [(''message'', JStr ''locked'')]))
           ''/update_shape'' (JObj []) [])"
proof -
  let ?a = "refusing_net (JObj [(''message'', JStr ''not found'')])"
  let ?b = "refusing_net (JObj [(''message'', JStr ''locked'')])"
  have a: "fetch ?a ([] @ [request_of ?a ''/update_shape'' (JObj [])])
             = Returns \<lparr> ok = False, res_json = Returns (JObj [(''message'', JStr ''not found'')]) \<rparr>"
    by (simp add: refusing_net_def)
  have b: "fetch ?b ([] @ [request_of ?b ''/update_shape'' (JObj [])])
             = Returns \<lparr> ok = False, res_json = Returns (JObj [(''message'', JStr ''locked'')]) \<rparr>"
    by (simp add: refusing_net_def)
  show ?thesis
    using requestToFrame0_failure_ignores_body [OF a _ b] by simp
qed

text \<open>
  C4, as stated, fails: the message carries no correlation identifier. Two calls that are
  outstanding together, with the same slug and parameters, send two identical messages.
\<close>

theorem requestToFrame0_requests_carry_no_id:
  "snd (requestToFrame0 silent_net ''/create_shape'' (JObj [])
         (snd (requestToFrame0 silent_net ''/create_shape'' (JObj []) [])))
   = [\<lparr> url = ''http://localhost:3000/create_shape'', http_method = ''POST'',
          headers = [(''Content-Type'', ''application/json'')], body = ''{}'' \<rparr>,
      \<lparr> url = ''http://localhost:3000/create_shape'', http_method = ''POST'',
          headers = [(''Content-Type'', ''application/json'')], body = ''{}'' \<rparr>]"
  by (simp add: requestToFrame0_def silent_net_def Let_def request_of_def URL_def)

text \<open>
  C4 (amended): every call of \<open>requestToFrame0\<close> hands exactly one request to the
  transport, whatever the outcome, and never sends again: a POST to the URL of the server
  followed by the slug, which names the command, with the serialized parameters as its
  body. The request carries no identifier.
\<close>

theorem requestToFrame0_sends_one_request:
  "snd (requestToFrame0 env slug params sent) =
     sent @ [\<lparr> url = ''http://localhost:3000'' @ slug, http_method = ''POST'',
               headers = [(''Content-Type'', ''application/json'')],
               body = JSON_stringify env (if params = JUndefined then JObj [] else params) \<rparr>]"
  by (simp add: requestToFrame0_def Let_def request_of_def URL_def split: outcome.splits)

theorem requestToFrame0_sends_one_request_witness:
  "snd (requestToFrame0 (answering_net JNull) ''/update_shape''
         (JObj [(''id'', JStr ''s1''), (''width'', JNum 120)]) [])
   = [\<lparr> url = ''http://localhost:3000/update_shape'', http_method = ''POST'',
          headers = [(''Content-Type'', ''application/json'')],
          body = sample_stringify (JObj [(''id'', JStr ''s1''), (''width'', JNum 120)]) \<rparr>]"
  using requestToFrame0_sends_one_request
    [of "answering_net JNull" "''/update_shape''"
        "JObj [(''id'', JStr ''s1''), (''width'', JNum 120)]" "[]"]
  by (simp add: answering_net_def)

section \<open>Runs of the three shapes of handler\<close>




lemma one_step_failure:
  assumes "run = try_catch
             (await (executeCommand env c1 a1)
                (\<lambda>x. return (textResult env (g x))))
             (catch_report env lbl) w"
  shows "(\<forall>e'. fst run \<noteq> Throws e')
     \<and> (0 < i \<and> i \<le> length (sent_by w run)
          \<and> bridge env (commands w @ take i (sent_by w run)) = Throws e
          \<longrightarrow> i = length (sent_by w run)
              \<and> fst run = Returns (textResult env (lbl @ error_toString e))
              \<and> stderr (snd run) = stderr w @ [e])"
  unfolding assms
  by (auto simp add: run_defs sent_by_def le_Suc_eq numeral_2_eq_2 numeral_3_eq_3
        split: outcome.splits)


lemma two_step_failure:
  assumes "run = try_catch
             (await (executeCommand env c1 a1)
                (\<lambda>x. await (executeCommand env c2 (a2 x))
                (\<lambda>d. return (textResult env (g d)))))
             (catch_report env lbl) w"
  shows "(\<forall>e'. fst run \<noteq> Throws e')
     \<and> (0 < i \<and> i \<le> length (sent_by w run)
          \<and> bridge env (commands w @ take i (sent_by w run)) = Throws e
          \<longrightarrow> i = length (sent_by w run)
              \<and> fst run = Returns (textResult env (lbl @ error_toString e))
              \<and> stderr (snd run) = stderr w @ [e])"
  unfolding assms
  by (auto simp add: run_defs sent_by_def le_Suc_eq numeral_2_eq_2 numeral_3_eq_3
        split: outcome.splits)


lemma three_step_failure:
  assumes "run = try_catch
             (await (executeCommand env c1 a1)
                (\<lambda>x. await (executeCommand env c2 a2)
                (\<lambda>y. await (executeCommand env c3 (a3 x))
                (\<lambda>d. return (textResult env (g d))))))
             (catch_report env lbl) w"
  shows "(\<forall>e'. fst run \<noteq> Throws e')
     \<and> (0 < i \<and> i \<le> length (sent_by w run)
          \<and> bridge env (commands w @ take i (sent_by w run)) = Throws e
          \<longrightarrow> i = length (sent_by w run)
              \<and> fst run = Returns (textResult env (lbl @ error_toString e))
              \<and> stderr (snd run) = stderr w @ [e])"
  unfolding assms
  by (auto simp add: run_defs sent_by_def le_Suc_eq numeral_2_eq_2 numeral_3_eq_3
        split: outcome.splits)

lemma one_step_success:
  assumes "run = try_catch
             (await (executeCommand env c1 a1)
                (\<lambda>x. return (textResult env (g x))))
             (catch_report env lbl) w"
  shows "bridge env (commands (snd run)) = Returns data
     \<longrightarrow> fst run = Returns (textResult env (g data))"
  unfolding assms by (auto simp add: run_defs split: outcome.splits)

lemma two_step_success:
  assumes "run = try_catch
             (await (executeCommand env c1 a1)
                (\<lambda>x. await (executeCommand env c2 (a2 x))
                (\<lambda>d. return (textResult env (g d)))))
             (catch_report env lbl) w"
  shows "bridge env (commands (snd run)) = Returns data
     \<longrightarrow> fst run = Returns (textResult env (g data))"
  unfolding assms by (auto simp add: run_defs split: outcome.splits)

lemma three_step_success:
  assumes "run = try_catch
             (await (executeCommand env c1 a1)
                (\<lambda>x. await (executeCommand env c2 a2)
                (\<lambda>y. await (executeCommand env c3 (a3 x))
                (\<lambda>d. return (textResult env (g d))))))
             (catch_report env lbl) w"
  shows "bridge env (commands (snd run)) = Returns data
     \<longrightarrow> fst run = Returns (textResult env (g data))"
  unfolding assms by (auto simp add: run_defs split: outcome.splits)

lemma get_prop_set_prop_same: "get_prop (set_prop k v fs) k = v"
  by (induction fs) (auto simp add: get_prop_def)

lemma get_prop_set_prop_other:
  "k' \<noteq> k \<Longrightarrow> get_prop (set_prop k v fs) k' = get_prop fs k'"
  by (induction fs) (auto simp add: get_prop_def)

lemma three_step_first:
  assumes "run = try_catch
             (await (executeCommand env c1 a1)
                (\<lambda>x. await (executeCommand env c2 a2)
                (\<lambda>y. await (executeCommand env c3 (a3 x))
                (\<lambda>d. return (textResult env (g d))))))
             (catch_report env lbl) w"
  shows "sent_by w run \<noteq> [] \<and> hd (sent_by w run) = (c1, a1)"
  unfolding assms by (auto simp add: run_defs sent_by_def split: outcome.splits)

lemma three_step_answered:
  assumes "run = try_catch
             (await (executeCommand env c1 a1)
                (\<lambda>x. await (executeCommand env c2 a2)
                (\<lambda>y. await (executeCommand env c3 (a3 x))
                (\<lambda>d. return (textResult env (g d))))))
             (catch_report env lbl) w"
    and "bridge env (commands w @ [(c1, a1)]) = Returns x"
    and "bridge env (commands w @ [(c1, a1), (c2, a2)]) = Returns y"
    and "bridge env (commands w @ [(c1, a1), (c2, a2), (c3, a3 x)]) = Returns d"
  shows "sent_by w run = [(c1, a1), (c2, a2), (c3, a3 x)]
     \<and> fst run = Returns (textResult env (g d))
     \<and> stderr (snd run) = stderr w"
  unfolding assms(1) using assms(2-4)
  by (simp add: run_defs sent_by_def)



lemma call_tool_failure:
  "(\<forall>e'. fst (call_tool env c w) \<noteq> Throws e')
   \<and> (0 < i \<and> i \<le> length (sent_by w (call_tool env c w))
        \<and> bridge env (commands w @ take i (sent_by w (call_tool env c w))) = Throws e
        \<longrightarrow> i = length (sent_by w (call_tool env c w))
            \<and> fst (call_tool env c w)
                = Returns (textResult env (failure_label c @ error_toString e))
            \<and> stderr (snd (call_tool env c w)) = stderr w @ [e])"
proof (cases c)
  case Create_frame
  show ?thesis
    unfolding Create_frame call_tool.simps failure_label.simps create_frame_def Let_def
    by (rule three_step_failure [OF refl])
next
  case Create_rectangle
  show ?thesis
    unfolding Create_rectangle call_tool.simps failure_label.simps create_rectangle_def Let_def
    by (rule two_step_failure [OF refl])
next
  case Create_ellipse
  show ?thesis
    unfolding Create_ellipse call_tool.simps failure_label.simps create_ellipse_def Let_def
    by (rule two_step_failure [OF refl])
next
  case Create_text
  show ?thesis
    unfolding Create_text call_tool.simps failure_label.simps create_text_def Let_def
    by (rule two_step_failure [OF refl])
next
  case Create_line
  show ?thesis
    unfolding Create_line call_tool.simps failure_label.simps create_line_def Let_def
    by (rule two_step_failure [OF refl])
next
  case Create_icon
  show ?thesis
    unfolding Create_icon call_tool.simps failure_label.simps create_icon_def Let_def
    by (rule two_step_failure [OF refl])
next
  case Update_shape
  show ?thesis
    unfolding Update_shape call_tool.simps failure_label.simps update_shape_def Let_def
    by (rule two_step_failure [OF refl])
next
  case Delete_shape
  show ?thesis
    unfolding Delete_shape call_tool.simps failure_label.simps delete_shape_def Let_def
    by (rule one_step_failure [OF refl])
next
  case Get_available_icons
  show ?thesis
    unfolding Get_available_icons call_tool.simps failure_label.simps get_available_icons_def Let_def
    by (rule one_step_failure [OF refl])
next
  case Move_shape
  show ?thesis
    unfolding Move_shape call_tool.simps failure_label.simps move_shape_def Let_def
    by (rule one_step_failure [OF refl])
next
  case Add_page
  show ?thesis
    unfolding Add_page call_tool.simps failure_label.simps add_page_def Let_def
    by (rule one_step_failure [OF refl])
next
  case Get_current_page_id
  show ?thesis
    unfolding Get_current_page_id call_tool.simps failure_label.simps get_current_page_id_def Let_def
    by (rule one_step_failure [OF refl])
next
  case Set_current_page_by_id
  show ?thesis
    unfolding Set_current_page_by_id call_tool.simps failure_label.simps set_current_page_by_id_def Let_def
    by (rule one_step_failure [OF refl])
next
  case Get_page
  show ?thesis
    unfolding Get_page call_tool.simps failure_label.simps get_page_def Let_def
    by (rule one_step_failure [OF refl])
next
  case Get_all_pages
  then show ?thesis
    by (auto simp add: get_all_pages_def run_defs sent_by_def le_Suc_eq
          split: outcome.splits sum.splits)
qed

lemma call_tool2_failure:
  "(\<forall>e'. fst (call_tool2 env c w) \<noteq> Throws e')
   \<and> (0 < i \<and> i \<le> length (sent_by w (call_tool2 env c w))
        \<and> bridge env (commands w @ take i (sent_by w (call_tool2 env c w))) = Throws e
        \<longrightarrow> i = length (sent_by w (call_tool2 env c w))
            \<and> fst (call_tool2 env c w)
                = Returns (textResult env (failure_label2 c @ error_toString e))
            \<and> stderr (snd (call_tool2 env c w)) = stderr w @ [e])"
proof (cases c)
  case Create_frame2
  show ?thesis
    unfolding Create_frame2 call_tool2.simps failure_label2.simps create_frame2_def Let_def
    by (rule three_step_failure [OF refl])
next
  case Create_rectangle2
  show ?thesis
    unfolding Create_rectangle2 call_tool2.simps failure_label2.simps create_rectangle2_def Let_def
    by (rule two_step_failure [OF refl])
next
  case Create_ellipse2
  show ?thesis
    unfolding Create_ellipse2 call_tool2.simps failure_label2.simps create_ellipse2_def Let_def
    by (rule two_step_failure [OF refl])
next
  case Create_text2
  show ?thesis
    unfolding Create_text2 call_tool2.simps failure_label2.simps create_text2_def Let_def
    by (rule two_step_failure [OF refl])
next
  case Create_line2
  show ?thesis
    unfolding Create_line2 call_tool2.simps failure_label2.simps create_line2_def Let_def
    by (rule two_step_failure [OF refl])
next
  case Create_icon2
  show ?thesis
    unfolding Create_icon2 call_tool2.simps failure_label2.simps create_icon2_def Let_def
    by (rule two_step_failure [OF refl])
next
  case Update_shape2
  show ?thesis
    unfolding Update_shape2 call_tool2.simps failure_label2.simps update_shape2_def Let_def
    by (rule two_step_failure [OF refl])
next
  case Delete_shape2
  show ?thesis
    unfolding Delete_shape2 call_tool2.simps failure_label2.simps delete_shape2_def Let_def
    by (rule one_step_failure [OF refl])
next
  case Get_available_icons2
  show ?thesis
    unfolding Get_available_icons2 call_tool2.simps failure_label2.simps get_available_icons2_def Let_def
    by (rule one_step_failure [OF refl])
next
  case Move_shape2
  show ?thesis
    unfolding Move_shape2 call_tool2.simps failure_label2.simps move_shape2_def Let_def
    by (rule one_step_failure [OF refl])
qed



section \<open>The tool handlers\<close>




text \<open>
  C6, as stated, fails: the \<open>create_frame\<close> handler of the first revision has no
  \<open>try\<close>, and the failure of \<open>requestToFrame0\<close> leaves the handler as a thrown
  value.
\<close>

theorem create_frame0_lets_failure_escape:
  "fst (call_tool0 (refusing_net JNull) (Create_frame0 Phone 0 0 320 690) [])
     = Throws (Error ''Failed to create rectangle'')"
  by (simp add: create_frame0_def requestToFrame0_def refusing_net_def await_def Let_def)

text \<open>
  C6 (amended): no handler of the two variants of index.ts ever throws. When any of its
  calls of \<open>executeCommand\<close>, the \<open>i\<close>-th, raises a failure \<open>e\<close>, whatever it
  is, that call is the last one the handler makes, the error is logged, and the handler
  returns the text result made of its failure label followed by \<open>e\<close> as a string.
\<close>

theorem handlers_report_failures:
  "(\<forall>e'. fst (call_tool env c w) \<noteq> Throws e')
   \<and> (0 < i \<and> i \<le> length (sent_by w (call_tool env c w))
        \<and> bridge env (commands w @ take i (sent_by w (call_tool env c w))) = Throws e
        \<longrightarrow> i = length (sent_by w (call_tool env c w))
            \<and> fst (call_tool env c w)
                = Returns (textResult env (failure_label c @ error_toString e))
            \<and> stderr (snd (call_tool env c w)) = stderr w @ [e])
   \<and> (\<forall>e'. fst (call_tool2 env c2 w) \<noteq> Throws e')
   \<and> (0 < j \<and> j \<le> length (sent_by w (call_tool2 env c2 w))
        \<and> bridge env (commands w @ take j (sent_by w (call_tool2 env c2 w))) = Throws e
        \<longrightarrow> j = length (sent_by w (call_tool2 env c2 w))
            \<and> fst (call_tool2 env c2 w)
                = Returns (textResult env (failure_label2 c2 @ error_toString e))
            \<and> stderr (snd (call_tool2 env c2 w)) = stderr w @ [e])"
  using call_tool_failure [of env c w i e] call_tool2_failure [of env c2 w j e] by blast

theorem handlers_report_failures_witness:
  "sent_by empty_world (call_tool (sample_tools failing_read)
        (Create_rectangle ''box'' None 0 0 100 50 None None None) empty_world)
     = [(''shape:create-shape'',
         JObj [(''type'', JStr ''Rectangle''),
               (''shapeProps'',
                  JObj [(''name'', JStr ''box''), (''left'', JNum 0), (''top'', JNum 0),
                        (''width'', JNum 100), (''height'', JNum 50),
                        (''fillColor'', JUndefined), (''strokeColor'', JUndefined),
                        (''corners'', JUndefined)]),
               (''parentId'', JUndefined)]),
        (''shape:get-shape'', JObj [(''shapeId'', JStr ''shp_1'')])]
   \<and> bridge (sample_tools failing_read)
       (commands empty_world @ take 2 (sent_by empty_world
          (call_tool (sample_tools failing_read)
             (Create_rectangle ''box'' None 0 0 100 50 None None None) empty_world)))
     = Throws (Error ''Timeout'')
   \<and> fst (call_tool (sample_tools failing_read)
        (Create_rectangle ''box'' None 0 0 100 50 None None None) empty_world)
     = Returns ''Failed to create rectangle: Error: Timeout''
   \<and> sent_by empty_world (call_tool2 (sample_tools failing_bridge)
        (Create_rectangle2 None None 0 0 100 50 None None None) empty_world)
     = [(''shape:create-shape'',
         JObj [(''type'', JStr ''Rectangle''),
               (''shapeProps'',
                  JObj [(''name'', JUndefined), (''left'', JNum 0), (''top'', JNum 0),
                        (''width'', JNum 100), (''height'', JNum 50),
                        (''fillColor'', JUndefined), (''strokeColor'', JUndefined),
                        (''corners'', JUndefined)]),
               (''parentId'', JUndefined)])]
   \<and> fst (call_tool2 (sample_tools failing_bridge)
        (Create_rectangle2 None None 0 0 100 50 None None None) empty_world)
     = Returns ''Failed to create rectangle: Error: Timeout''"
proof -
  let ?a = "sample_tools failing_read"
  let ?b = "sample_tools failing_bridge"
  let ?c = "Create_rectangle ''box'' None 0 0 100 50 None None None :: int tool_call"
  let ?c2 = "Create_rectangle2 None None 0 0 100 50 None None None :: int tool_call2"
  have a: "sent_by empty_world
             (create_rectangle ?a ''box'' None 0 0 100 50 None None None empty_world)
     = [(''shape:create-shape'',
         JObj [(''type'', JStr ''Rectangle''),
               (''shapeProps'',
                  JObj [(''name'', JStr ''box''), (''left'', JNum 0), (''top'', JNum 0),
                        (''width'', JNum 100), (''height'', JNum 50),
                        (''fillColor'', JUndefined), (''strokeColor'', JUndefined),
                        (''corners'', JUndefined)]),
               (''parentId'', JUndefined)]),
        (''shape:get-shape'', JObj [(''shapeId'', JStr ''shp_1'')])]"
    by (simp add: create_rectangle_def run_defs sent_by_def sample_tools_def empty_world_def
          failing_read_def)
  have b: "sent_by empty_world
             (create_rectangle2 ?b None None 0 0 100 50 None None None empty_world)
     = [(''shape:create-shape'',
         JObj [(''type'', JStr ''Rectangle''),
               (''shapeProps'',
                  JObj [(''name'', JUndefined), (''left'', JNum 0), (''top'', JNum 0),
                        (''width'', JNum 100), (''height'', JNum 50),
                        (''fillColor'', JUndefined), (''strokeColor'', JUndefined),
                        (''corners'', JUndefined)]),
               (''parentId'', JUndefined)])]"
    by (simp add: create_rectangle2_def run_defs sent_by_def sample_tools_def empty_world_def
          failing_bridge_def)
  have env: "bridge ?a = failing_read" "bridge ?b = failing_bridge"
    "textResult ?a = (\<lambda>t. t)" "textResult ?b = (\<lambda>t. t)"
    "commands empty_world = []"
    by (simp_all add: sample_tools_def empty_world_def)
  show ?thesis
    using handlers_report_failures [of ?a ?c empty_world 2 "Error ''Timeout''" ?c2 1]
      handlers_report_failures [of ?b ?c empty_world 1 "Error ''Timeout''" ?c2 1]
    by (simp add: a b env failing_read_def failing_bridge_def error_toString_def)
qed

text \<open>
  C7, as stated, fails: the \<open>create_frame\<close> handler of the first revision serializes
  the payload as it came, with the property that a filter would have removed.
\<close>

theorem create_frame0_reports_unfiltered_payload:
  "fst (call_tool0 (answering_net (JObj [(''id'', JStr ''shp_1''), (''noise'', JNum 7)]))
          (Create_frame0 Phone 0 0 320 690) [])
     = Returns (text_content
         (sample_stringify (JObj [(''id'', JStr ''shp_1''), (''noise'', JNum 7)])))
   \<and> sample_stringify (JObj [(''id'', JStr ''shp_1''), (''noise'', JNum 7)])
     \<noteq> sample_stringify (drop_noise (JObj [(''id'', JStr ''shp_1''), (''noise'', JNum 7)]))"
  by (simp add: create_frame0_def requestToFrame0_def answering_net_def await_def return_def
        Let_def)

text \<open>
  C7 (amended): in both variants of index.ts, when the last command of \<open>create_frame\<close>,
  \<open>create_rectangle\<close>, \<open>create_text\<close> or \<open>update_shape\<close> returns the payload
  \<open>data\<close>, the reported text serializes \<open>filterShape data\<close> (in the first variant
  with \<open>top\<close> and \<open>height\<close>, respectively \<open>textType\<close>, set on the filtered
  object); \<open>get_page\<close> serializes \<open>filterPage data\<close>, and \<open>get_all_pages\<close>
  serializes the array of the filtered children of the document.
\<close>

theorem payloads_pass_through_filters:
  "(bridge env (commands (snd (create_frame env frameType name left topY fillColor w)))
      = Returns data
    \<longrightarrow> fst (create_frame env frameType name left topY fillColor w)
        = Returns (textResult env (''Created frame: '' @ JSON_stringify env
            (JObj (set_prop ''height''
                     (JNum (num_add env (frame_height (FRAME_SIZE env frameType))
                              (num_lit env (FRAME_HEADER_HEIGHT frameType))))
                     (set_prop ''top''
                        (JNum (num_sub env topY (num_lit env (FRAME_HEADER_HEIGHT frameType))))
                        (own_props (filterShape env data))))))))
   \<and> (bridge env (commands (snd (create_rectangle env name parentId left topY width height
          fillColor strokeColor corners w))) = Returns data
    \<longrightarrow> fst (create_rectangle env name parentId left topY width height fillColor strokeColor
          corners w)
        = Returns (textResult env (''Created rectangle: '' @
            JSON_stringify env (filterShape env data))))
   \<and> (bridge env (commands (snd (create_text env type name parentId left topY width_opt str
          fontColor fontSize w))) = Returns data
    \<longrightarrow> fst (create_text env type name parentId left topY width_opt str fontColor fontSize w)
        = Returns (textResult env (''Created text: '' @ JSON_stringify env
            (JObj (set_prop ''textType'' (optS (map_option text_type_name type))
                     (own_props (filterShape env data)))))))
   \<and> (bridge env (commands (snd (update_shape env shapeId name_opt width_opt height_opt
          strokeColor fillColor fontColor fontSize corners w))) = Returns data
    \<longrightarrow> fst (update_shape env shapeId name_opt width_opt height_opt strokeColor fillColor
          fontColor fontSize corners w)
        = Returns (textResult env (''Updated shape: '' @
            JSON_stringify env (filterShape env data))))
   \<and> (bridge env (commands (snd (get_page env pageId exportShapes w))) = Returns data
    \<longrightarrow> fst (get_page env pageId exportShapes w)
        = Returns (textResult env (''The page data: '' @
            JSON_stringify env (filterPage env data))))
   \<and> (bridge env (commands (snd (get_all_pages env exportShapes w)))
        = Returns (JObj fs) \<and> get_prop fs ''children'' = JArr pages
    \<longrightarrow> fst (get_all_pages env exportShapes w)
        = Returns (textResult env (''The all pages data: '' @
            JSON_stringify env (JArr (map (filterPage env) pages)))))
   \<and> (bridge env (commands (snd (create_frame2 env libraryFrame left topY width height
          fillColor w))) = Returns data
    \<longrightarrow> fst (create_frame2 env libraryFrame left topY width height fillColor w)
        = Returns (textResult env (''Created frame: '' @
            JSON_stringify env (filterShape env data))))
   \<and> (bridge env (commands (snd (create_rectangle2 env name_opt parentId left topY width height
          fillColor strokeColor corners w))) = Returns data
    \<longrightarrow> fst (create_rectangle2 env name_opt parentId left topY width height fillColor
          strokeColor corners w)
        = Returns (textResult env (''Created rectangle: '' @
            JSON_stringify env (filterShape env data))))
   \<and> (bridge env (commands (snd (create_text2 env name_opt parentId left topY str fontColor
          fontSize w))) = Returns data
    \<longrightarrow> fst (create_text2 env name_opt parentId left topY str fontColor fontSize w)
        = Returns (textResult env (''Created text: '' @
            JSON_stringify env (filterShape env data))))
   \<and> (bridge env (commands (snd (update_shape2 env shapeId others w))) = Returns data
    \<longrightarrow> fst (update_shape2 env shapeId others w)
        = Returns (textResult env (''Updated shape: '' @
            JSON_stringify env (filterShape env data))))"
  apply (intro conjI)
  subgoal unfolding create_frame_def Let_def by (rule three_step_success [OF refl])
  subgoal unfolding create_rectangle_def by (rule two_step_success [OF refl])
  subgoal unfolding create_text_def by (rule two_step_success [OF refl])
  subgoal unfolding update_shape_def by (rule two_step_success [OF refl])
  subgoal unfolding get_page_def by (rule one_step_success [OF refl])
  subgoal by (auto simp add: get_all_pages_def run_defs get_prop_def split: outcome.splits sum.splits)
  subgoal unfolding create_frame2_def by (rule three_step_success [OF refl])
  subgoal unfolding create_rectangle2_def by (rule two_step_success [OF refl])
  subgoal unfolding create_text2_def by (rule two_step_success [OF refl])
  subgoal unfolding update_shape2_def by (rule two_step_success [OF refl])
  done


theorem payloads_pass_through_filters_witness:
  "fst (create_frame (sample_tools (\<lambda>sent. Returns sample_payload)) browser ''Home'' 0 0 None
          empty_world)
     = Returns (''Created frame: '' @ sample_stringify
         (JObj [(''id'', JStr ''p1''),
                (''children'', JArr [JObj [(''id'', JStr ''s1''), (''noise'', JNum 8)]]),
                (''top'', JNum (- 76)), (''height'', JNum 676)]))
   \<and> fst (create_rectangle (sample_tools (\<lambda>sent. Returns sample_payload)) ''Home'' None 0 0
          100 50 None None None empty_world)
     = Returns (''Created rectangle: '' @ sample_stringify (drop_noise sample_payload))
   \<and> fst (create_text (sample_tools (\<lambda>sent. Returns sample_payload)) (Some Label) ''Home''
          None 0 0 None ''Hello'' None None empty_world)
     = Returns (''Created text: '' @ sample_stringify
         (JObj [(''id'', JStr ''p1''),
                (''children'', JArr [JObj [(''id'', JStr ''s1''), (''noise'', JNum 8)]]),
                (''textType'', JStr ''label'')]))
   \<and> fst (update_shape (sample_tools (\<lambda>sent. Returns sample_payload)) ''p1'' None None
          None None None None None None empty_world)
     = Returns (''Updated shape: '' @ sample_stringify (drop_noise sample_payload))
   \<and> fst (get_page (sample_tools (\<lambda>sent. Returns sample_payload)) None True empty_world)
     = Returns (''The page data: '' @ sample_stringify (drop_noise sample_payload))
   \<and> fst (get_all_pages (sample_tools (\<lambda>sent. Returns sample_payload)) True empty_world)
     = Returns (''The all pages data: '' @ sample_stringify (JArr [JObj [(''id'', JStr ''s1'')]]))
   \<and> fst (create_frame2 (sample_tools (\<lambda>sent. Returns sample_payload)) Phone 0 0 100 50
          None empty_world)
     = Returns (''Created frame: '' @ sample_stringify (drop_noise sample_payload))
   \<and> fst (create_rectangle2 (sample_tools (\<lambda>sent. Returns sample_payload)) None None 0 0
          100 50 None None None empty_world)
     = Returns (''Created rectangle: '' @ sample_stringify (drop_noise sample_payload))
   \<and> fst (create_text2 (sample_tools (\<lambda>sent. Returns sample_payload)) None None 0 0
          ''Hello'' None None empty_world)
     = Returns (''Created text: '' @ sample_stringify (drop_noise sample_payload))
   \<and> fst (update_shape2 (sample_tools (\<lambda>sent. Returns sample_payload)) ''p1''
          [(''width'', JNum 10)] empty_world)
     = Returns (''Updated shape: '' @ sample_stringify (drop_noise sample_payload))"
  using payloads_pass_through_filters [where env = "sample_tools (\<lambda>sent. Returns sample_payload)" and w = empty_world
      and data = sample_payload and frameType = browser and name = "''Home''" and left = 0
      and topY = 0 and fillColor = None and parentId = None and width = 100 and height = 50
      and strokeColor = None and corners = None and type = "Some Label" and width_opt = None
      and str = "''Hello''" and fontColor = None and fontSize = None and shapeId = "''p1''"
      and name_opt = None and height_opt = None and pageId = None and exportShapes = True
      and fs = "[(''id'', JStr ''p1''), (''noise'', JNum 7),
           (''children'', JArr [JObj [(''id'', JStr ''s1''), (''noise'', JNum 8)]])]"
      and pages = "[JObj [(''id'', JStr ''s1''), (''noise'', JNum 8)]]"
      and libraryFrame = Phone and others = "[(''width'', JNum 10)]"]
  by (simp add: sample_tools_def sample_payload_def get_prop_def FRAME_SIZE_def)

text \<open>
  C8: the header heights are 0 for phone, tablet, watch and tv, 32 for desktop and 76 for
  browser. Every invocation of the first \<open>create_frame\<close> sends, as its first command,
  the creation of the library shape with \<open>top\<close> the requested top minus the header
  height and \<open>height\<close> the catalogued height plus the header height, both computed by
  the operators of the runtime; for a browser frame that is 600 + 76, which is 676 on a
  runtime that adds these two whole numbers exactly. When the first command returns
  \<open>shapeId\<close>, \<open>view:fit-to-screen\<close> is answered and \<open>shape:get-shape\<close> of
  \<open>shapeId\<close> returns \<open>data\<close>, these three commands are what the handler sent, and
  the reported object is the filtered \<open>data\<close> with \<open>top\<close> and \<open>height\<close> set to
  the same adjusted values, whatever \<open>data\<close> holds for them.
\<close>

theorem create_frame_adjusts_for_header:
  "FRAME_HEADER_HEIGHT phone = 0 \<and> FRAME_HEADER_HEIGHT tablet = 0
   \<and> FRAME_HEADER_HEIGHT watch = 0 \<and> FRAME_HEADER_HEIGHT tv = 0
   \<and> FRAME_HEADER_HEIGHT desktop = 32 \<and> FRAME_HEADER_HEIGHT browser = 76
   \<and> snd (FRAME_SIZE_LITERALS browser) + FRAME_HEADER_HEIGHT browser = 676
   \<and> first_command env (Create_frame frameType name left topY fillColor)
       = (''shape:create-shape-from-library-by-query'',
          JObj [(''query'', JStr (FRAME_NAME frameType @ ''&@Frame'')),
                (''shapeProps'',
                   JObj [(''name'', JStr name),
                         (''left'', JNum left),
                         (''top'',
                            JNum (num_sub env topY
                                    (num_lit env (FRAME_HEADER_HEIGHT frameType)))),
                         (''width'', JNum (num_lit env (fst (FRAME_SIZE_LITERALS frameType)))),
                         (''height'',
                            JNum (num_add env
                                    (num_lit env (snd (FRAME_SIZE_LITERALS frameType)))
                                    (num_lit env (FRAME_HEADER_HEIGHT frameType)))),
                         (''fillColor'', convertColor env fillColor)])])
   \<and> (num_add env (num_lit env 600) (num_lit env 76) = num_lit env 676
        \<longrightarrow> num_add env (num_lit env (snd (FRAME_SIZE_LITERALS browser)))
              (num_lit env (FRAME_HEADER_HEIGHT browser)) = num_lit env 676)
   \<and> sent_by w (create_frame env frameType name left topY fillColor w) \<noteq> []
   \<and> hd (sent_by w (create_frame env frameType name left topY fillColor w))
       = first_command env (Create_frame frameType name left topY fillColor)
   \<and> (bridge env (commands w @
          [first_command env (Create_frame frameType name left topY fillColor)])
          = Returns shapeId
        \<and> bridge env (commands w @
            [first_command env (Create_frame frameType name left topY fillColor),
             (''view:fit-to-screen'', JUndefined)])
          = Returns fitted
        \<and> bridge env (commands w @
            [first_command env (Create_frame frameType name left topY fillColor),
             (''view:fit-to-screen'', JUndefined),
             (''shape:get-shape'', JObj [(''shapeId'', shapeId)])])
          = Returns data
      \<longrightarrow> sent_by w (create_frame env frameType name left topY fillColor w)
            = [first_command env (Create_frame frameType name left topY fillColor),
               (''view:fit-to-screen'', JUndefined),
               (''shape:get-shape'', JObj [(''shapeId'', shapeId)])]
          \<and> (\<exists>props.
                props = set_prop ''height''
                          (JNum (num_add env (num_lit env (snd (FRAME_SIZE_LITERALS frameType)))
                                   (num_lit env (FRAME_HEADER_HEIGHT frameType))))
                          (set_prop ''top''
                             (JNum (num_sub env topY
                                      (num_lit env (FRAME_HEADER_HEIGHT frameType))))
                             (own_props (filterShape env data)))
                \<and> fst (create_frame env frameType name left topY fillColor w)
                  = Returns (textResult env
                      (''Created frame: '' @ JSON_stringify env (JObj props)))
                \<and> get_prop props ''top''
                    = JNum (num_sub env topY (num_lit env (FRAME_HEADER_HEIGHT frameType)))
                \<and> get_prop props ''height''
                    = JNum (num_add env (num_lit env (snd (FRAME_SIZE_LITERALS frameType)))
                              (num_lit env (FRAME_HEADER_HEIGHT frameType)))
                \<and> (\<forall>k. k \<noteq> ''top'' \<and> k \<noteq> ''height''
                      \<longrightarrow> get_prop props k
                          = get_prop (own_props (filterShape env data)) k)))"
proof -
  let ?run = "create_frame env frameType name left topY fillColor w"
  let ?first = "first_command env (Create_frame frameType name left topY fillColor)"
  let ?top = "JNum (num_sub env topY (num_lit env (FRAME_HEADER_HEIGHT frameType)))"
  let ?height = "JNum (num_add env (num_lit env (snd (FRAME_SIZE_LITERALS frameType)))
                         (num_lit env (FRAME_HEADER_HEIGHT frameType)))"
  let ?props = "\<lambda>data. set_prop ''height'' ?height
                  (set_prop ''top'' ?top (own_props (filterShape env data)))"
  have tables: "FRAME_HEADER_HEIGHT phone = 0 \<and> FRAME_HEADER_HEIGHT tablet = 0
      \<and> FRAME_HEADER_HEIGHT watch = 0 \<and> FRAME_HEADER_HEIGHT tv = 0
      \<and> FRAME_HEADER_HEIGHT desktop = 32 \<and> FRAME_HEADER_HEIGHT browser = 76
      \<and> snd (FRAME_SIZE_LITERALS browser) + FRAME_HEADER_HEIGHT browser = 676
      \<and> (num_add env (num_lit env 600) (num_lit env 76) = num_lit env 676
        \<longrightarrow> num_add env (num_lit env (snd (FRAME_SIZE_LITERALS browser)))
              (num_lit env (FRAME_HEADER_HEIGHT browser)) = num_lit env 676)"
    by simp
  have command: "?first
       = (''shape:create-shape-from-library-by-query'',
          JObj [(''query'', JStr (FRAME_NAME frameType @ ''&@Frame'')),
                (''shapeProps'',
                   JObj [(''name'', JStr name),
                         (''left'', JNum left),
                         (''top'', ?top),
                         (''width'', JNum (num_lit env (fst (FRAME_SIZE_LITERALS frameType)))),
                         (''height'', ?height),
                         (''fillColor'', convertColor env fillColor)])])"
    by (simp add: FRAME_SIZE_def)
  have first: "sent_by w ?run \<noteq> [] \<and> hd (sent_by w ?run) = ?first"
    unfolding create_frame_def first_command.simps Let_def
    by (rule three_step_first [OF refl])
  have size: "frame_height (FRAME_SIZE env frameType)
                = num_lit env (snd (FRAME_SIZE_LITERALS frameType))"
    by (simp add: FRAME_SIZE_def)
  have answered: "sent_by w ?run
            = [?first, (''view:fit-to-screen'', JUndefined),
               (''shape:get-shape'', JObj [(''shapeId'', shapeId)])]
        \<and> fst ?run = Returns (textResult env
              (''Created frame: '' @ JSON_stringify env (JObj (?props data))))
        \<and> stderr (snd ?run) = stderr w"
    if "bridge env (commands w @ [?first]) = Returns shapeId"
      and "bridge env (commands w @ [?first, (''view:fit-to-screen'', JUndefined)])
             = Returns fitted"
      and "bridge env (commands w @ [?first, (''view:fit-to-screen'', JUndefined),
             (''shape:get-shape'', JObj [(''shapeId'', shapeId)])]) = Returns data"
    using that
    unfolding create_frame_def first_command.simps Let_def size [symmetric]
    by (rule three_step_answered [OF refl])
  have "get_prop (?props data) ''top'' = ?top"
    by (simp add: get_prop_set_prop_other get_prop_set_prop_same)
  moreover have "get_prop (?props data) ''height'' = ?height"
    by (simp add: get_prop_set_prop_same)
  moreover have "\<forall>k. k \<noteq> ''top'' \<and> k \<noteq> ''height''
      \<longrightarrow> get_prop (?props data) k = get_prop (own_props (filterShape env data)) k"
    by (simp add: get_prop_set_prop_other)
  ultimately show ?thesis
    using tables command first answered by blast
qed

theorem create_frame_adjusts_for_header_witness:
  "num_add (sample_tools frame_bridge) (num_lit (sample_tools frame_bridge) 600)
     (num_lit (sample_tools frame_bridge) 76) = num_lit (sample_tools frame_bridge) 676
   \<and> sent_by empty_world
        (create_frame (sample_tools frame_bridge) browser ''Home'' 0 0 None empty_world)
     = [(''shape:create-shape-from-library-by-query'',
         JObj [(''query'', JStr ''Browser&@Frame''),
               (''shapeProps'',
                  JObj [(''name'', JStr ''Home''), (''left'', JNum 0), (''top'', JNum (- 76)),
                        (''width'', JNum 800), (''height'', JNum 676),
                        (''fillColor'', JUndefined)])]),
        (''view:fit-to-screen'', JUndefined),
        (''shape:get-shape'', JObj [(''shapeId'', JStr ''frm_1'')])]
   \<and> (\<exists>props.
         fst (create_frame (sample_tools frame_bridge) browser ''Home'' 0 0 None empty_world)
           = Returns (''Created frame: '' @ sample_stringify (JObj props))
         \<and> get_prop props ''top'' = JNum (- 76)
         \<and> get_prop props ''height'' = JNum 676
         \<and> get_prop props ''id'' = JStr ''frm_1'')"
proof -
  let ?E = "sample_tools frame_bridge"
  let ?first = "first_command ?E (Create_frame browser ''Home'' 0 0 None)"
  let ?data = "JObj [(''id'', JStr ''frm_1''), (''top'', JNum 0), (''height'', JNum 600),
                     (''noise'', JNum 7)] :: int json"
  have env: "num_lit ?E = (\<lambda>i. i)" "num_add ?E = (\<lambda>a b. a + b)"
    "num_sub ?E = (\<lambda>a b. a - b)" "bridge ?E = frame_bridge" "textResult ?E = (\<lambda>t. t)"
    "JSON_stringify ?E = sample_stringify" "filterShape ?E = drop_noise"
    "convertColor ?E None = JUndefined" "commands empty_world = []"
    by (simp_all add: sample_tools_def empty_world_def)
  have exact: "num_add ?E (num_lit ?E 600) (num_lit ?E 76) = num_lit ?E 676"
    by (simp add: env)
  have first: "?first
     = (''shape:create-shape-from-library-by-query'',
         JObj [(''query'', JStr ''Browser&@Frame''),
               (''shapeProps'',
                  JObj [(''name'', JStr ''Home''), (''left'', JNum 0), (''top'', JNum (- 76)),
                        (''width'', JNum 800), (''height'', JNum 676),
                        (''fillColor'', JUndefined)])])"
    by (simp add: env FRAME_SIZE_def)
  have b1: "bridge ?E (commands empty_world @ [?first]) = Returns (JStr ''frm_1'')"
    by (simp add: env frame_bridge_def)
  have b2: "bridge ?E (commands empty_world @ [?first, (''view:fit-to-screen'', JUndefined)])
              = Returns JNull"
    by (simp add: env frame_bridge_def)
  have b3: "bridge ?E (commands empty_world @ [?first, (''view:fit-to-screen'', JUndefined),
              (''shape:get-shape'', JObj [(''shapeId'', JStr ''frm_1'')])]) = Returns ?data"
    by (simp add: env frame_bridge_def)
  from create_frame_adjusts_for_header [of ?E browser "''Home''" 0 0 None empty_world "JStr ''frm_1''" JNull ?data]
    b1 b2 b3
  obtain props where sent: "sent_by empty_world
        (create_frame ?E browser ''Home'' 0 0 None empty_world)
        = [?first, (''view:fit-to-screen'', JUndefined),
           (''shape:get-shape'', JObj [(''shapeId'', JStr ''frm_1'')])]"
    and report: "fst (create_frame ?E browser ''Home'' 0 0 None empty_world)
        = Returns (textResult ?E (''Created frame: '' @ JSON_stringify ?E (JObj props)))"
    and top: "get_prop props ''top''
        = JNum (num_sub ?E 0 (num_lit ?E (FRAME_HEADER_HEIGHT browser)))"
    and height: "get_prop props ''height''
        = JNum (num_add ?E (num_lit ?E (snd (FRAME_SIZE_LITERALS browser)))
                  (num_lit ?E (FRAME_HEADER_HEIGHT browser)))"
    and rest: "\<forall>k. k \<noteq> ''top'' \<and> k \<noteq> ''height''
        \<longrightarrow> get_prop props k = get_prop (own_props (filterShape ?E ?data)) k"
    by blast
  have "get_prop props ''id'' = JStr ''frm_1''"
    using rest by (simp add: env get_prop_def)
  moreover have "get_prop props ''top'' = JNum (- 76)"
    using top by (simp add: env)
  moreover have "get_prop props ''height'' = JNum 676"
    using height by (simp add: env)
  moreover have "fst (create_frame ?E browser ''Home'' 0 0 None empty_world)
      = Returns (''Created frame: '' @ sample_stringify (JObj props))"
    using report by (simp add: env)
  ultimately show ?thesis
    using exact sent first by auto
qed

text \<open>
  C9, as stated, fails: when \<open>doc:get\<close> returns \<open>null\<close>, reading \<open>children\<close>
  throws, and the handler reports the failure, not an empty list.
\<close>

theorem get_all_pages_null_document:
  "fst (get_all_pages (sample_tools (\<lambda>sent. Returns JNull)) False empty_world)
     = Returns ''Failed to get page data: TypeError: Cannot use null''"
  by (simp add: get_all_pages_def run_defs sample_tools_def empty_world_def error_toString_def)

text \<open>
  C9 (amended): \<open>get_all_pages\<close> sends the one command \<open>doc:get\<close>. For every
  payload that is an object or an array it reports a JSON array: the children mapped
  through \<open>filterPage\<close> when the \<open>children\<close> property is an array, the empty array
  when it is missing or is not an array. For every other payload (\<open>null\<close>,
  \<open>undefined\<close>, a string, a number, a boolean) the \<open>TypeError\<close> is caught and
  reported as the failure text. For any payload at all, the handler does not throw.
\<close>

theorem get_all_pages_children_or_empty:
  assumes "bridge env (commands w @
             [(''doc:get'', JObj [(''exportPages'', JBool True),
                                  (''exportShapes'', JBool exportShapes)])]) = Returns docData"
  shows "sent_by w (get_all_pages env exportShapes w)
           = [(''doc:get'', JObj [(''exportPages'', JBool True),
                                  (''exportShapes'', JBool exportShapes)])]
       \<and> (\<forall>fs pages. docData = JObj fs \<and> get_prop fs ''children'' = JArr pages
            \<longrightarrow> fst (get_all_pages env exportShapes w)
                = Returns (textResult env (''The all pages data: '' @
                    JSON_stringify env (JArr (map (filterPage env) pages)))))
       \<and> (\<forall>fs. docData = JObj fs \<and> (\<forall>pages. get_prop fs ''children'' \<noteq> JArr pages)
            \<longrightarrow> fst (get_all_pages env exportShapes w)
                = Returns (textResult env (''The all pages data: '' @
                    JSON_stringify env (JArr []))))
       \<and> (\<forall>xs. docData = JArr xs
            \<longrightarrow> fst (get_all_pages env exportShapes w)
                = Returns (textResult env (''The all pages data: '' @
                    JSON_stringify env (JArr []))))
       \<and> ((\<forall>fs. docData \<noteq> JObj fs) \<and> (\<forall>xs. docData \<noteq> JArr xs)
            \<longrightarrow> fst (get_all_pages env exportShapes w)
                = Returns (textResult env (''Failed to get page data: '' @
                    error_toString (TypeError (TypeError_message env docData)))))
       \<and> (\<forall>e. fst (get_all_pages env exportShapes w) \<noteq> Throws e)"
  using assms
  by (cases docData)
     (auto simp add: get_all_pages_def run_defs sent_by_def split: json.splits sum.splits)

theorem get_all_pages_children_or_empty_witness:
  "fst (get_all_pages (sample_tools (\<lambda>sent. Returns sample_payload)) False empty_world)
     = Returns (''The all pages data: '' @ sample_stringify (JArr [JObj [(''id'', JStr ''s1'')]]))
   \<and> fst (get_all_pages (sample_tools (\<lambda>sent. Returns (JObj [(''id'', JStr ''doc'')])))
            False empty_world)
     = Returns (''The all pages data: '' @ sample_stringify (JArr []))
   \<and> fst (get_all_pages (sample_tools (\<lambda>sent. Returns (JStr ''busy''))) False empty_world)
     = Returns (''Failed to get page data: TypeError: Cannot use '' @
                sample_stringify (JStr ''busy''))"
proof -
  let ?a = "sample_tools (\<lambda>sent. Returns sample_payload)"
  let ?b = "sample_tools (\<lambda>sent. Returns (JObj [(''id'', JStr ''doc'')]))"
  let ?c = "sample_tools (\<lambda>sent. Returns (JStr ''busy''))"
  have a: "bridge ?a (commands empty_world @
             [(''doc:get'', JObj [(''exportPages'', JBool True),
                                  (''exportShapes'', JBool False)])]) = Returns sample_payload"
    by (simp add: sample_tools_def)
  have b: "bridge ?b (commands empty_world @
             [(''doc:get'', JObj [(''exportPages'', JBool True),
                                  (''exportShapes'', JBool False)])])
             = Returns (JObj [(''id'', JStr ''doc'')])"
    by (simp add: sample_tools_def)
  have c: "bridge ?c (commands empty_world @
             [(''doc:get'', JObj [(''exportPages'', JBool True),
                                  (''exportShapes'', JBool False)])])
             = Returns (JStr ''busy'')"
    by (simp add: sample_tools_def)
  show ?thesis
    using get_all_pages_children_or_empty [OF a] get_all_pages_children_or_empty [OF b] get_all_pages_children_or_empty [OF c]
    by (simp add: sample_tools_def sample_payload_def get_prop_def error_toString_def)
qed

text \<open>
  C10: every invocation of \<open>delete_shape\<close> in the second variant sends exactly one
  command, \<open>shape:update-shape\<close> with the parameters \<open>{shapeIdArray: [shapeId]}\<close>;
  when it is answered the handler reports \<open>Deleted shape of id: \<close> followed by the
  identifier. It never sends \<open>edit:delete\<close>, which is the one command the first variant
  sends for the same input, so the two handlers differ in the command they emit.
\<close>

theorem delete_shape2_sends_update_shape:
  "sent_by w (delete_shape2 env shapeId w)
     = [(''shape:update-shape'', JObj [(''shapeIdArray'', JArr [JStr shapeId])])]
   \<and> commands (snd (delete_shape2 env shapeId w))
     = commands w @ [(''shape:update-shape'', JObj [(''shapeIdArray'', JArr [JStr shapeId])])]
   \<and> (bridge env (commands (snd (delete_shape2 env shapeId w))) = Returns answer
        \<longrightarrow> fst (delete_shape2 env shapeId w)
            = Returns (textResult env (''Deleted shape of id: '' @ shapeId)))
   \<and> (\<forall>args. (''edit:delete'', args) \<notin> set (sent_by w (delete_shape2 env shapeId w)))
   \<and> sent_by w (delete_shape env shapeId w)
     = [(''edit:delete'', JObj [(''shapeIdArray'', JArr [JStr shapeId])])]
   \<and> sent_by w (delete_shape2 env shapeId w) \<noteq> sent_by w (delete_shape env shapeId w)"
  by (auto simp add: delete_shape2_def delete_shape_def run_defs sent_by_def
        split: outcome.splits)

theorem delete_shape2_sends_update_shape_witness:
  "bridge (sample_tools (\<lambda>sent. Returns JNull))
     (commands (snd (delete_shape2 (sample_tools (\<lambda>sent. Returns JNull)) ''shp_1''
        empty_world))) = Returns JNull
   \<and> fst (delete_shape2 (sample_tools (\<lambda>sent. Returns JNull)) ''shp_1'' empty_world)
     = Returns ''Deleted shape of id: shp_1''
   \<and> sent_by empty_world (delete_shape2 (sample_tools (\<lambda>sent. Returns JNull)) ''shp_1''
        empty_world)
     = [(''shape:update-shape'', JObj [(''shapeIdArray'', JArr [JStr ''shp_1''])])]"
  using delete_shape2_sends_update_shape [of empty_world "sample_tools (\<lambda>sent. Returns JNull)" "''shp_1''" JNull]
  by (simp add: sample_tools_def)

end
